theory Spec2Isabelle
  imports Complex_Main "HOL-Library.Word"
begin

unbundle bit_operations_syntax

section \<open>Values, exceptions and the Python operations the client applies\<close>

text \<open>
  The client (\<^verbatim>\<open>client.py\<close>) works on whatever \<^verbatim>\<open>response.json()\<close> yields, so
  the model keeps the dynamic typing: a value is any JSON value, and every operation
  of the source that Python can refuse on the wrong type returns the exception it raises.
  A string is the list of its bytes (UTF-8); an object is the list of its key/value
  pairs, read with \<open>map_of\<close>. A JSON float is kept as the real number it denotes.
\<close>

datatype json =
    JNull
  | JBool bool
  | JInt int
  | JFloat real
  | JStr string
  | JArr "json list"
  | JObj "(string \<times> json) list"

text \<open>
  The classes of the exceptions that can leave the client: the two it raises itself
  (\<^verbatim>\<open>Exception\<close> and the builtin \<^verbatim>\<open>TimeoutError\<close>) and the ones the operations
  it calls raise (builtins, \<^verbatim>\<open>binascii.Error\<close>, the \<^verbatim>\<open>requests\<close> exceptions,
  PIL's \<^verbatim>\<open>UnidentifiedImageError\<close>).
\<close>

datatype exc_class =
    Exception
  | TimeoutError
  | TypeError
  | AttributeError
  | KeyError
  | ValueError
  | BinasciiError
  | JSONDecodeError
  | RequestsConnectionError
  | RequestsTimeout
  | UnidentifiedImageError

text \<open>
  A message is the f-string that builds it, kept in parts: a literal piece, or
  \<open>Fmt v\<close> for \<^verbatim>\<open>{v}\<close>, the \<^verbatim>\<open>str()\<close> of a value. Exceptions raised by library
  code carry no modelled message.
\<close>

datatype fpart = Lit string | Fmt json

datatype py_exc = PyExc exc_class "fpart list"

fun exc_class_of :: "py_exc \<Rightarrow> exc_class" where
  "exc_class_of (PyExc k m) = k"

text \<open>\<^verbatim>\<open>s in t\<close> on two strings: \<open>s\<close> occurs in \<open>t\<close>.\<close>

fun py_substr :: "string \<Rightarrow> string \<Rightarrow> bool" where
  "py_substr s [] = (s = [])"
| "py_substr s (c # t) = (take (length s) (c # t) = s \<or> py_substr s t)"

text \<open>\<^verbatim>\<open>k in x\<close> for a string \<open>k\<close>: key of a dict, element of a list, substring of a
  string; any other value is not iterable.\<close>

fun py_in :: "string \<Rightarrow> json \<Rightarrow> py_exc + bool" where
  "py_in k (JObj kvs) = Inr (map_of kvs k \<noteq> None)"
| "py_in k (JArr xs) = Inr (JStr k \<in> set xs)"
| "py_in k (JStr s) = Inr (py_substr k s)"
| "py_in k JNull = Inl (PyExc TypeError [])"
| "py_in k (JBool b) = Inl (PyExc TypeError [])"
| "py_in k (JInt i) = Inl (PyExc TypeError [])"
| "py_in k (JFloat f) = Inl (PyExc TypeError [])"

text \<open>\<^verbatim>\<open>x.get(k, d)\<close>: only a dict has \<^verbatim>\<open>get\<close>.\<close>

fun py_get :: "json \<Rightarrow> string \<Rightarrow> json \<Rightarrow> py_exc + json" where
  "py_get (JObj kvs) k d = Inr (case map_of kvs k of None \<Rightarrow> d | Some v \<Rightarrow> v)"
| "py_get JNull k d = Inl (PyExc AttributeError [])"
| "py_get (JBool b) k d = Inl (PyExc AttributeError [])"
| "py_get (JInt i) k d = Inl (PyExc AttributeError [])"
| "py_get (JFloat f) k d = Inl (PyExc AttributeError [])"
| "py_get (JStr s) k d = Inl (PyExc AttributeError [])"
| "py_get (JArr xs) k d = Inl (PyExc AttributeError [])"

text \<open>\<^verbatim>\<open>x[k]\<close> for a string \<open>k\<close>: a dict raises \<^verbatim>\<open>KeyError\<close> on a missing key,
  every other value raises \<^verbatim>\<open>TypeError\<close> (a list or string wants an integer index,
  the rest is not subscriptable).\<close>

fun py_index :: "json \<Rightarrow> string \<Rightarrow> py_exc + json" where
  "py_index (JObj kvs) k =
     (case map_of kvs k of None \<Rightarrow> Inl (PyExc KeyError [Fmt (JStr k)]) | Some v \<Rightarrow> Inr v)"
| "py_index JNull k = Inl (PyExc TypeError [])"
| "py_index (JBool b) k = Inl (PyExc TypeError [])"
| "py_index (JInt i) k = Inl (PyExc TypeError [])"
| "py_index (JFloat f) k = Inl (PyExc TypeError [])"
| "py_index (JStr s) k = Inl (PyExc TypeError [])"
| "py_index (JArr xs) k = Inl (PyExc TypeError [])"

text \<open>Truth value of a value, as \<^verbatim>\<open>if not x\<close> reads it.\<close>

fun py_truthy :: "json \<Rightarrow> bool" where
  "py_truthy JNull = False"
| "py_truthy (JBool b) = b"
| "py_truthy (JInt i) = (i \<noteq> 0)"
| "py_truthy (JFloat f) = (f \<noteq> 0)"
| "py_truthy (JStr s) = (s \<noteq> [])"
| "py_truthy (JArr xs) = (xs \<noteq> [])"
| "py_truthy (JObj kvs) = (kvs \<noteq> [])"

section \<open>Base64\<close>

type_synonym byte = "8 word"

text \<open>
  Modelled from the spec: the base64 encoding (``the \<^verbatim>\<open>image\<close> field is base64-encoded
  PNG bytes embedded as a string''). The handler calls \<^verbatim>\<open>base64.b64encode\<close> and the client
  \<^verbatim>\<open>base64.b64decode\<close>; both are Python's standard library, not code of this
  repository. The table is the standard alphabet of RFC 4648.
\<close>

definition b64_alphabet :: string where
  "b64_alphabet = ''ABCDEFGHIJKLMNOPQRSTUVWXYZabcdefghijklmnopqrstuvwxyz0123456789+/''"

definition b64_char :: "byte \<Rightarrow> char" where
  "b64_char v = b64_alphabet ! unat v"

definition b64_value :: "char \<Rightarrow> byte option" where
  "b64_value ch = map_option of_nat (map_of (zip b64_alphabet [0..<64]) ch)"

text \<open>
  Modelled from the spec: \<^verbatim>\<open>base64.b64encode\<close>. Three bytes give four characters
  of six bits each; a last group of one or two bytes is filled with zero bits and
  padded with \<^verbatim>\<open>=\<close> to four characters.
\<close>

fun b64encode :: "byte list \<Rightarrow> string" where
  "b64encode [] = []"
| "b64encode [a] =
     [b64_char (drop_bit 2 a), b64_char (push_bit 4 (a AND 3)), CHR ''='', CHR ''='']"
| "b64encode [a, b] =
     [b64_char (drop_bit 2 a), b64_char (push_bit 4 (a AND 3) OR drop_bit 4 b),
      b64_char (push_bit 2 (b AND 15)), CHR ''='']"
| "b64encode (a # b # c # rest) =
     [b64_char (drop_bit 2 a), b64_char (push_bit 4 (a AND 3) OR drop_bit 4 b),
      b64_char (push_bit 2 (b AND 15) OR drop_bit 6 c), b64_char (c AND 63)]
     @ b64encode rest"

text \<open>
  Modelled from the spec: \<^verbatim>\<open>base64.b64decode\<close> with its default \<^verbatim>\<open>validate=False\<close>,
  as the scan of \<^verbatim>\<open>binascii.a2b_base64\<close>: \<open>quad_pos\<close> counts the characters of the
  current group, \<open>leftchar\<close> holds the bits not yet written, \<open>pads\<close> the \<^verbatim>\<open>=\<close> seen
  in a row. A character outside the alphabet is skipped; enough padding after at least
  two characters of a group ends the scan; input that ends inside a group raises
  \<^verbatim>\<open>binascii.Error\<close>.
\<close>

fun a2b_base64 :: "string \<Rightarrow> nat \<Rightarrow> byte \<Rightarrow> nat \<Rightarrow> byte list \<Rightarrow> py_exc + byte list" where
  "a2b_base64 [] quad_pos leftchar pads out =
     (if quad_pos \<noteq> 0 then Inl (PyExc BinasciiError []) else Inr out)"
| "a2b_base64 (ch # rest) quad_pos leftchar pads out =
     (if ch = CHR ''='' then
        (if 2 \<le> quad_pos \<and> 4 \<le> quad_pos + (pads + 1) then Inr out
         else a2b_base64 rest quad_pos leftchar (if 2 \<le> quad_pos then pads + 1 else pads) out)
      else
        (case b64_value ch of
           None \<Rightarrow> a2b_base64 rest quad_pos leftchar pads out
         | Some v \<Rightarrow>
             (if quad_pos = 0 then a2b_base64 rest 1 v 0 out
              else if quad_pos = 1 then
                a2b_base64 rest 2 (v AND 15) 0 (out @ [push_bit 2 leftchar OR drop_bit 4 v])
              else if quad_pos = 2 then
                a2b_base64 rest 3 (v AND 3) 0 (out @ [push_bit 4 leftchar OR drop_bit 2 v])
              else
                a2b_base64 rest 0 0 0 (out @ [push_bit 6 leftchar OR v]))))"

text \<open>
  Modelled from the spec: \<^verbatim>\<open>base64.b64decode(s)\<close> on a value. A string must be ASCII
  (\<^verbatim>\<open>ValueError\<close> otherwise) and is then scanned; a value that is neither a string
  nor bytes-like raises \<^verbatim>\<open>TypeError\<close>.
\<close>

fun b64decode :: "json \<Rightarrow> py_exc + byte list" where
  "b64decode (JStr s) =
     (if list_ex (\<lambda>c. 128 \<le> (of_char c :: nat)) s then Inl (PyExc ValueError [])
      else a2b_base64 s 0 0 0 [])"
| "b64decode JNull = Inl (PyExc TypeError [])"
| "b64decode (JBool b) = Inl (PyExc TypeError [])"
| "b64decode (JInt i) = Inl (PyExc TypeError [])"
| "b64decode (JFloat f) = Inl (PyExc TypeError [])"
| "b64decode (JArr xs) = Inl (PyExc TypeError [])"
| "b64decode (JObj kvs) = Inl (PyExc TypeError [])"

section \<open>The world outside the client: network, clock, log\<close>

datatype http_method = GET | POST

record http_request =
  req_method :: http_method
  req_url :: string
  req_json :: "json option"
  req_headers :: "(string \<times> string) list"
  req_timeout :: "int option"

text \<open>A response as the client reads it: \<^verbatim>\<open>status_code\<close>, \<^verbatim>\<open>text\<close> (here \<open>resp_text\<close>), and what
  \<^verbatim>\<open>json()\<close> gives (\<open>None\<close> when the body is not JSON and \<^verbatim>\<open>json()\<close> raises).\<close>

record response =
  status_code :: int
  resp_text :: string
  json_body :: "json option"

datatype requests_failure = ConnectionRefused | TimedOut

datatype http_outcome = Raised requests_failure | Responded response

fun requests_exc :: "requests_failure \<Rightarrow> py_exc" where
  "requests_exc ConnectionRefused = PyExc RequestsConnectionError []"
| "requests_exc TimedOut = PyExc RequestsTimeout []"

text \<open>
  What the client does to the world is logged in order: a line printed, an HTTP call
  (with the clock when it was issued), a sleep (seconds asked, clock when it began).
\<close>

datatype event =
    Printed "fpart list"
  | HttpCall http_request nat
  | Slept nat nat

text \<open>
  The environment decides what the client cannot: the outcome of the \<open>n\<close>-th HTTP call
  for the request sent, how long that call takes, by how much the \<open>n\<close>-th sleep
  overshoots, and which byte strings PIL identifies as an image. Durations are whole
  milliseconds.
\<close>

record env =
  server :: "nat \<Rightarrow> http_request \<Rightarrow> http_outcome"
  latency :: "nat \<Rightarrow> nat"
  oversleep :: "nat \<Rightarrow> nat"
  pil_identifies :: "byte list \<Rightarrow> bool"

text \<open>The state: the wall clock in milliseconds, the number of HTTP calls and of sleeps
  so far, and the log.\<close>

record world =
  clock :: nat
  calls :: nat
  naps :: nat
  log :: "event list"

definition after_call :: "env \<Rightarrow> http_request \<Rightarrow> world \<Rightarrow> world" where
  "after_call E rq w =
     w\<lparr>clock := clock w + latency E (calls w),
       calls := Suc (calls w),
       log := log w @ [HttpCall rq (clock w)]\<rparr>"

definition http_send :: "env \<Rightarrow> http_request \<Rightarrow> world \<Rightarrow> world \<times> (py_exc + response)" where
  "http_send E rq w =
     (after_call E rq w,
      case server E (calls w) rq of
        Raised f \<Rightarrow> Inl (requests_exc f)
      | Responded r \<Rightarrow> Inr r)"

text \<open>\<^verbatim>\<open>requests.post(url, json=..., headers=..., timeout=...)\<close> and
  \<^verbatim>\<open>requests.get(url, headers=..., timeout=...)\<close>.\<close>

definition requests_post ::
  "env \<Rightarrow> string \<Rightarrow> json \<Rightarrow> (string \<times> string) list \<Rightarrow> int option \<Rightarrow> world
     \<Rightarrow> world \<times> (py_exc + response)" where
  "requests_post E url js hs tmo w =
     http_send E \<lparr>req_method = POST, req_url = url, req_json = Some js,
                  req_headers = hs, req_timeout = tmo\<rparr> w"

definition requests_get ::
  "env \<Rightarrow> string \<Rightarrow> (string \<times> string) list \<Rightarrow> int option \<Rightarrow> world
     \<Rightarrow> world \<times> (py_exc + response)" where
  "requests_get E url hs tmo w =
     http_send E \<lparr>req_method = GET, req_url = url, req_json = None,
                  req_headers = hs, req_timeout = tmo\<rparr> w"

text \<open>\<^verbatim>\<open>time.time()\<close>, in seconds, and \<^verbatim>\<open>time.sleep(secs)\<close>, which takes at least
  \<open>secs\<close> seconds.\<close>

definition time_time :: "world \<Rightarrow> real" where
  "time_time w = real (clock w) / 1000"

definition time_sleep :: "env \<Rightarrow> nat \<Rightarrow> world \<Rightarrow> world" where
  "time_sleep E secs w =
     w\<lparr>clock := clock w + 1000 * secs + oversleep E (naps w),
       naps := Suc (naps w),
       log := log w @ [Slept secs (clock w)]\<rparr>"

definition print_line :: "fpart list \<Rightarrow> world \<Rightarrow> world" where
  "print_line m w = w\<lparr>log := log w @ [Printed m]\<rparr>"

text \<open>\<^verbatim>\<open>Image.open(BytesIO(data))\<close>: the image over these bytes, or
  \<^verbatim>\<open>UnidentifiedImageError\<close> when PIL finds no format for them.\<close>

datatype image = Image "byte list"

definition Image_open :: "env \<Rightarrow> byte list \<Rightarrow> py_exc + image" where
  "Image_open E img_data =
     (if pil_identifies E img_data then Inr (Image img_data)
      else Inl (PyExc UnidentifiedImageError []))"

section \<open>The client\<close>

text \<open>\<^verbatim>\<open>ZImageClient.__init__\<close>: the endpoint and the key fix the base URL and the
  headers of every call.\<close>

record client =
  endpoint_id :: string
  api_key :: string

definition base_url :: "client \<Rightarrow> string" where
  "base_url c = ''https://api.runpod.ai/v2/'' @ endpoint_id c"

definition headers :: "client \<Rightarrow> (string \<times> string) list" where
  "headers c =
     [(''Content-Type'', ''application/json''),
      (''Authorization'', ''Bearer '' @ api_key c)]"

text \<open>The body both submissions send.\<close>

definition payload :: "string \<Rightarrow> int \<Rightarrow> int \<Rightarrow> int \<Rightarrow> int option \<Rightarrow> json" where
  "payload prompt height width num_inference_steps seed =
     JObj [(''input'',
       JObj [(''prompt'', JStr prompt),
             (''height'', JInt height),
             (''width'', JInt width),
             (''num_inference_steps'', JInt num_inference_steps),
             (''seed'', case seed of None \<Rightarrow> JNull | Some n \<Rightarrow> JInt n)])]"

text \<open>\<^verbatim>\<open>generate_sync\<close>: one POST to \<^verbatim>\<open>/runsync\<close>, then the checks on the answer in
  the order of the source.\<close>

definition generate_sync ::
  "env \<Rightarrow> client \<Rightarrow> string \<Rightarrow> int \<Rightarrow> int \<Rightarrow> int \<Rightarrow> int option \<Rightarrow> int \<Rightarrow> world
     \<Rightarrow> world \<times> (py_exc + image)" where
  "generate_sync E c prompt height width num_inference_steps seed timeout w =
     (let url = base_url c @ ''/runsync'';
          w0 = print_line [Lit ''Sending request to '', Fmt (JStr url)] w;
          (w1, r) = requests_post E url
                      (payload prompt height width num_inference_steps seed)
                      (headers c) (Some timeout) w0
      in case r of
           Inl e \<Rightarrow> (w1, Inl e)
         | Inr response \<Rightarrow>
             if status_code response \<noteq> 200 then
               (w1, Inl (PyExc Exception
                  [Lit ''API request failed: '', Fmt (JInt (status_code response)),
                   Lit '' - '', Fmt (JStr (resp_text response))]))
             else
               (case json_body response of
                  None \<Rightarrow> (w1, Inl (PyExc JSONDecodeError []))
                | Some result \<Rightarrow>
                    (w1,
                     case py_in ''error'' result of
                       Inl e \<Rightarrow> Inl e
                     | Inr has_error \<Rightarrow>
                         if has_error then
                           (case py_index result ''error'' of
                              Inl e \<Rightarrow> Inl e
                            | Inr v \<Rightarrow> Inl (PyExc Exception [Lit ''Generation failed: '', Fmt v]))
                         else
                           (case py_get result ''output'' (JObj []) of
                              Inl e \<Rightarrow> Inl e
                            | Inr output \<Rightarrow>
                                (case py_in ''error'' output of
                                   Inl e \<Rightarrow> Inl e
                                 | Inr output_has_error \<Rightarrow>
                                     if output_has_error then
                                       (case py_index output ''error'' of
                                          Inl e \<Rightarrow> Inl e
                                        | Inr v \<Rightarrow>
                                            Inl (PyExc Exception
                                                   [Lit ''Generation failed: '', Fmt v]))
                                     else
                                       (case py_get output ''image'' JNull of
                                          Inl e \<Rightarrow> Inl e
                                        | Inr img_base64 \<Rightarrow>
                                            if \<not> py_truthy img_base64 then
                                              Inl (PyExc Exception
                                                     [Lit ''No image in response: '', Fmt result])
                                            else
                                              (case b64decode img_base64 of
                                                 Inl e \<Rightarrow> Inl e
                                               | Inr img_data \<Rightarrow> Image_open E img_data)))))))"

text \<open>\<^verbatim>\<open>generate_async\<close>: one POST to \<^verbatim>\<open>/run\<close>; the handle is
  \<^verbatim>\<open>result.get("id")\<close>, whatever value that is.\<close>

definition generate_async ::
  "env \<Rightarrow> client \<Rightarrow> string \<Rightarrow> int \<Rightarrow> int \<Rightarrow> int \<Rightarrow> int option \<Rightarrow> world
     \<Rightarrow> world \<times> (py_exc + json)" where
  "generate_async E c prompt height width num_inference_steps seed w =
     (let url = base_url c @ ''/run'';
          (w1, r) = requests_post E url
                      (payload prompt height width num_inference_steps seed)
                      (headers c) None w
      in case r of
           Inl e \<Rightarrow> (w1, Inl e)
         | Inr response \<Rightarrow>
             if status_code response \<noteq> 200 then
               (w1, Inl (PyExc Exception
                  [Lit ''API request failed: '', Fmt (JInt (status_code response)),
                   Lit '' - '', Fmt (JStr (resp_text response))]))
             else
               (case json_body response of
                  None \<Rightarrow> (w1, Inl (PyExc JSONDecodeError []))
                | Some result \<Rightarrow> (w1, py_get result ''id'' JNull)))"

text \<open>\<^verbatim>\<open>check_status\<close>: one GET to \<^verbatim>\<open>/status/{job_id}\<close>.\<close>

definition check_status ::
  "env \<Rightarrow> client \<Rightarrow> string \<Rightarrow> world \<Rightarrow> world \<times> (py_exc + json)" where
  "check_status E c job_id w =
     (let url = base_url c @ ''/status/'' @ job_id;
          (w1, r) = requests_get E url (headers c) None w
      in case r of
           Inl e \<Rightarrow> (w1, Inl e)
         | Inr response \<Rightarrow>
             if status_code response \<noteq> 200 then
               (w1, Inl (PyExc Exception
                  [Lit ''Status check failed: '', Fmt (JInt (status_code response)),
                   Lit '' - '', Fmt (JStr (resp_text response))]))
             else
               (case json_body response of
                  None \<Rightarrow> (w1, Inl (PyExc JSONDecodeError []))
                | Some status \<Rightarrow> (w1, Inr status)))"

text \<open>
  \<^verbatim>\<open>get_result\<close>: the \<^verbatim>\<open>while True\<close> loop, one status query per round. What it
  returns is \<open>Some\<close> image, or \<open>None\<close> for Python's \<^verbatim>\<open>None\<close>.
\<close>

function get_result_loop ::
  "env \<Rightarrow> client \<Rightarrow> string \<Rightarrow> bool \<Rightarrow> int \<Rightarrow> real \<Rightarrow> world
     \<Rightarrow> world \<times> (py_exc + image option)" where
  "get_result_loop E c job_id wait max_wait start_time w =
     (let (w1, r) = check_status E c job_id w
      in case r of
           Inl e \<Rightarrow> (w1, Inl e)
         | Inr status \<Rightarrow>
             (case py_get status ''status'' JNull of
                Inl e \<Rightarrow> (w1, Inl e)
              | Inr job_status \<Rightarrow>
                  if job_status = JStr ''COMPLETED'' then
                    (w1,
                     case py_get status ''output'' (JObj []) of
                       Inl e \<Rightarrow> Inl e
                     | Inr output \<Rightarrow>
                         (case py_in ''error'' output of
                            Inl e \<Rightarrow> Inl e
                          | Inr output_has_error \<Rightarrow>
                              if output_has_error then
                                (case py_index output ''error'' of
                                   Inl e \<Rightarrow> Inl e
                                 | Inr v \<Rightarrow>
                                     Inl (PyExc Exception [Lit ''Generation failed: '', Fmt v]))
                              else
                                (case py_get output ''image'' JNull of
                                   Inl e \<Rightarrow> Inl e
                                 | Inr img_base64 \<Rightarrow>
                                     (case b64decode img_base64 of
                                        Inl e \<Rightarrow> Inl e
                                      | Inr img_data \<Rightarrow>
                                          (case Image_open E img_data of
                                             Inl e \<Rightarrow> Inl e
                                           | Inr img \<Rightarrow> Inr (Some img))))))
                  else if job_status = JStr ''FAILED'' then
                    (w1,
                     case py_get status ''error'' (JStr ''Unknown error'') of
                       Inl e \<Rightarrow> Inl e
                     | Inr error \<Rightarrow> Inl (PyExc Exception [Lit ''Job failed: '', Fmt error]))
                  else if job_status \<in> set [JStr ''IN_QUEUE'', JStr ''IN_PROGRESS''] then
                    (if \<not> wait then (w1, Inr None)
                     else
                       (let elapsed = time_time w1 - start_time
                        in if elapsed > real_of_int max_wait then
                             (w1, Inl (PyExc TimeoutError
                                [Lit ''Job did not complete within '', Fmt (JInt max_wait),
                                 Lit '' seconds'']))
                           else
                             get_result_loop E c job_id wait max_wait start_time
                               (time_sleep E 1 w1)))
                  else
                    (w1, Inl (PyExc Exception [Lit ''Unknown job status: '', Fmt job_status]))))"
  by pat_completeness auto
termination
proof (relation "measure (\<lambda>(E, c, job_id, wait, max_wait, start_time, w).
          nat (\<lfloor>start_time + real_of_int max_wait - time_time w\<rfloor> + 1))", goal_cases)
  case 1
  show ?case by simp
next
  case (2 E c job_id wait max_wait start_time w x w1 r status job_status elapsed)
  have "w1 = fst (check_status E c job_id w)"
    using 2 by (metis fst_conv)
  then have c1: "clock w \<le> clock w1"
    by (simp add: check_status_def requests_get_def http_send_def after_call_def Let_def
          split: sum.splits option.splits)
  have t1: "time_time w \<le> time_time w1"
    using c1 by (simp add: time_time_def)
  have t2: "time_time w1 + 1 \<le> time_time (time_sleep E 1 w1)"
    by (simp add: time_time_def time_sleep_def add_divide_distrib)
  have le: "time_time w1 - start_time \<le> real_of_int max_wait"
    using 2 by simp
  have a: "0 \<le> \<lfloor>start_time + real_of_int max_wait - time_time w\<rfloor>"
    using le t1 by simp
  have b: "\<lfloor>start_time + real_of_int max_wait - time_time (time_sleep E 1 w1)\<rfloor>
            \<le> \<lfloor>start_time + real_of_int max_wait - time_time w - 1\<rfloor>"
    using t1 t2 by (intro floor_mono) simp
  have "\<lfloor>start_time + real_of_int max_wait - time_time w - 1\<rfloor>
          = \<lfloor>start_time + real_of_int max_wait - time_time w\<rfloor> - 1"
    by simp
  with a b show ?case by simp
qed

definition get_result ::
  "env \<Rightarrow> client \<Rightarrow> string \<Rightarrow> bool \<Rightarrow> int \<Rightarrow> world \<Rightarrow> world \<times> (py_exc + image option)" where
  "get_result E c job_id wait max_wait w =
     (let start_time = time_time w
      in get_result_loop E c job_id wait max_wait start_time w)"

text \<open>\<^verbatim>\<open>health_check\<close>: a GET to \<^verbatim>\<open>/health\<close> with a timeout of 5 seconds inside
  \<^verbatim>\<open>try\<close>, with a bare \<^verbatim>\<open>except\<close> that returns \<^verbatim>\<open>False\<close>.\<close>

definition health_check :: "env \<Rightarrow> client \<Rightarrow> world \<Rightarrow> world \<times> (py_exc + bool)" where
  "health_check E c w =
     (let url = base_url c @ ''/health'';
          (w1, r) = requests_get E url (headers c) (Some 5) w
      in case r of
           Inl e \<Rightarrow> (w1, Inr False)
         | Inr response \<Rightarrow> (w1, Inr (status_code response = 200)))"

section \<open>The requests the client sends, and what a log shows\<close>

definition sync_request ::
  "client \<Rightarrow> string \<Rightarrow> int \<Rightarrow> int \<Rightarrow> int \<Rightarrow> int option \<Rightarrow> int \<Rightarrow> http_request" where
  "sync_request c prompt height width num_inference_steps seed timeout =
     \<lparr>req_method = POST, req_url = base_url c @ ''/runsync'',
      req_json = Some (payload prompt height width num_inference_steps seed),
      req_headers = headers c, req_timeout = Some timeout\<rparr>"

definition async_request ::
  "client \<Rightarrow> string \<Rightarrow> int \<Rightarrow> int \<Rightarrow> int \<Rightarrow> int option \<Rightarrow> http_request" where
  "async_request c prompt height width num_inference_steps seed =
     \<lparr>req_method = POST, req_url = base_url c @ ''/run'',
      req_json = Some (payload prompt height width num_inference_steps seed),
      req_headers = headers c, req_timeout = None\<rparr>"

definition status_request :: "client \<Rightarrow> string \<Rightarrow> http_request" where
  "status_request c job_id =
     \<lparr>req_method = GET, req_url = base_url c @ ''/status/'' @ job_id,
      req_json = None, req_headers = headers c, req_timeout = None\<rparr>"

definition health_request :: "client \<Rightarrow> http_request" where
  "health_request c =
     \<lparr>req_method = GET, req_url = base_url c @ ''/health'',
      req_json = None, req_headers = headers c, req_timeout = Some 5\<rparr>"

text \<open>The HTTP calls of a log, in order.\<close>

fun http_calls :: "event list \<Rightarrow> http_request list" where
  "http_calls [] = []"
| "http_calls (HttpCall rq t # es) = rq # http_calls es"
| "http_calls (Printed m # es) = http_calls es"
| "http_calls (Slept secs t # es) = http_calls es"

text \<open>The status a response reports, when it is a 200 whose JSON body is an object with
  a string under \<^verbatim>\<open>status\<close>.\<close>

definition reports :: "http_outcome \<Rightarrow> string \<Rightarrow> bool" where
  "reports out s =
     (case out of
        Raised f \<Rightarrow> False
      | Responded r \<Rightarrow>
          status_code r = 200 \<and>
          (case json_body r of
             Some (JObj kvs) \<Rightarrow> map_of kvs ''status'' = Some (JStr s)
           | _ \<Rightarrow> False))"

definition pending :: "string \<Rightarrow> bool" where
  "pending s = (s = ''IN_QUEUE'' \<or> s = ''IN_PROGRESS'')"

definition known_status :: "string \<Rightarrow> bool" where
  "known_status s =
     (s = ''IN_QUEUE'' \<or> s = ''IN_PROGRESS'' \<or> s = ''COMPLETED'' \<or> s = ''FAILED'')"

text \<open>
  What the part of a log after a first status query looks like when every further query
  comes after a one-second sleep that began, with the elapsed time within \<open>max_wait\<close>,
  at least a second before the query was issued.
\<close>

fun polls_in_budget :: "real \<Rightarrow> int \<Rightarrow> event list \<Rightarrow> bool" where
  "polls_in_budget start_time max_wait [] = True"
| "polls_in_budget start_time max_wait (Slept secs t # HttpCall rq t' # es) =
     (secs = 1 \<and> real t / 1000 - start_time \<le> real_of_int max_wait \<and> t + 1000 \<le> t' \<and>
      polls_in_budget start_time max_wait es)"
| "polls_in_budget start_time max_wait (e # es) = False"

text \<open>The request shape the specification asks the client to insist on.\<close>

definition valid_request :: "string \<Rightarrow> int \<Rightarrow> int \<Rightarrow> bool" where
  "valid_request prompt height width =
     (prompt \<noteq> [] \<and> 0 < height \<and> height mod 8 = 0 \<and> 0 < width \<and> width mod 8 = 0)"

subsection \<open>Sample runs\<close>

text \<open>A service that gives every call the same outcome after \<open>ms\<close> milliseconds, with
  sleeps that do not overshoot and a PIL that identifies every byte string; and a 200
  answer with a JSON body (its raw text, which the client reads only off a failure
  status, is left empty).\<close>

definition answering :: "http_outcome \<Rightarrow> nat \<Rightarrow> env" where
  "answering out ms =
     \<lparr>server = (\<lambda>n rq. out), latency = (\<lambda>n. ms), oversleep = (\<lambda>n. 0),
      pil_identifies = (\<lambda>d. True)\<rparr>"

text \<open>A service that answers the \<open>n\<close>-th call with the \<open>n\<close>-th outcome of a list, and
  with \<open>final\<close> once the list is used up.\<close>

definition scripted :: "http_outcome list \<Rightarrow> http_outcome \<Rightarrow> nat \<Rightarrow> env" where
  "scripted outs final ms =
     \<lparr>server = (\<lambda>n rq. if n < length outs then outs ! n else final),
      latency = (\<lambda>n. ms), oversleep = (\<lambda>n. 0), pil_identifies = (\<lambda>d. True)\<rparr>"

definition ok_json :: "json \<Rightarrow> http_outcome" where
  "ok_json js = Responded \<lparr>status_code = 200, resp_text = [], json_body = Some js\<rparr>"

definition world0 :: world where
  "world0 = \<lparr>clock = 0, calls = 0, naps = 0, log = []\<rparr>"

definition client0 :: client where
  "client0 = \<lparr>endpoint_id = ''ep'', api_key = ''key''\<rparr>"

declare get_result_loop.simps [simp del]

section \<open>One round of the poll loop\<close>

lemma check_status_fst:
  "fst (check_status E c job_id w) = after_call E (status_request c job_id) w"
  by (simp add: check_status_def requests_get_def http_send_def status_request_def Let_def
        split: sum.splits option.splits)

lemma check_status_reports:
  assumes "reports (server E (calls w) (status_request c job_id)) s"
  shows "\<exists>kvs. check_status E c job_id w = (after_call E (status_request c job_id) w, Inr (JObj kvs))
           \<and> map_of kvs ''status'' = Some (JStr s)"
  using assms
  by (auto simp: reports_def check_status_def requests_get_def http_send_def status_request_def
        Let_def split: http_outcome.splits option.splits json.splits)

lemma loop_unknown:
  assumes "reports (server E (calls w) (status_request c job_id)) s" "\<not> known_status s"
  shows "get_result_loop E c job_id wait max_wait start_time w =
           (after_call E (status_request c job_id) w,
            Inl (PyExc Exception [Lit ''Unknown job status: '', Fmt (JStr s)]))"
proof -
  obtain kvs where cs: "check_status E c job_id w = (after_call E (status_request c job_id) w, Inr (JObj kvs))"
    and st: "map_of kvs ''status'' = Some (JStr s)"
    using check_status_reports[OF assms(1)] by blast
  show ?thesis
    using assms(2) by (subst get_result_loop.simps) (simp add: cs st known_status_def)
qed

lemma loop_pending_nowait:
  assumes "reports (server E (calls w) (status_request c job_id)) s" "pending s"
  shows "get_result_loop E c job_id False max_wait start_time w =
           (after_call E (status_request c job_id) w, Inr None)"
proof -
  obtain kvs where cs: "check_status E c job_id w = (after_call E (status_request c job_id) w, Inr (JObj kvs))"
    and st: "map_of kvs ''status'' = Some (JStr s)"
    using check_status_reports[OF assms(1)] by blast
  show ?thesis
    using assms(2) by (subst get_result_loop.simps) (auto simp add: cs st pending_def)
qed

lemma loop_pending_wait:
  assumes "reports (server E (calls w) (status_request c job_id)) s" "pending s"
  shows "get_result_loop E c job_id True max_wait start_time w =
           (if time_time (after_call E (status_request c job_id) w) - start_time > real_of_int max_wait
            then (after_call E (status_request c job_id) w,
                  Inl (PyExc TimeoutError [Lit ''Job did not complete within '', Fmt (JInt max_wait), Lit '' seconds'']))
            else get_result_loop E c job_id True max_wait start_time
                   (time_sleep E 1 (after_call E (status_request c job_id) w)))"
proof -
  obtain kvs where cs: "check_status E c job_id w = (after_call E (status_request c job_id) w, Inr (JObj kvs))"
    and st: "map_of kvs ''status'' = Some (JStr s)"
    using check_status_reports[OF assms(1)] by blast
  show ?thesis
    using assms(2) by (subst get_result_loop.simps) (auto simp add: cs st pending_def Let_def)
qed


lemma check_status_Inr:
  assumes "check_status E c job_id w = (w1, Inr status)"
  shows "\<exists>r. server E (calls w) (status_request c job_id) = Responded r \<and> status_code r = 200
            \<and> json_body r = Some status"
  using assms
  by (auto simp: check_status_def requests_get_def http_send_def status_request_def
        Let_def split: http_outcome.splits option.splits if_splits)

lemma py_get_status_str:
  assumes "py_get status ''status'' JNull = Inr (JStr s)"
  shows "\<exists>kvs. status = JObj kvs \<and> map_of kvs ''status'' = Some (JStr s)"
  using assms by (cases status) (auto split: option.splits)

lemma loop_round:
  "fst (get_result_loop E c job_id wait max_wait start_time w) = after_call E (status_request c job_id) w
   \<or> (wait \<and> \<not> time_time (after_call E (status_request c job_id) w) - start_time > real_of_int max_wait
       \<and> (\<exists>s. reports (server E (calls w) (status_request c job_id)) s \<and> pending s)
       \<and> get_result_loop E c job_id wait max_wait start_time w =
           get_result_loop E c job_id wait max_wait start_time
             (time_sleep E 1 (after_call E (status_request c job_id) w)))"
proof -
  obtain r where cs: "check_status E c job_id w = (after_call E (status_request c job_id) w, r)"
    using check_status_fst[of E c job_id w] by (cases "check_status E c job_id w") simp
  show ?thesis
  proof (cases r)
    case (Inl e)
    then show ?thesis by (subst get_result_loop.simps) (simp add: cs)
  next
    case (Inr status)
    show ?thesis
    proof (cases "py_get status ''status'' JNull")
      case (Inl e)
      then show ?thesis using Inr by (subst get_result_loop.simps) (simp add: cs)
    next
      case js: (Inr job_status)
      show ?thesis
      proof (cases "(job_status = JStr ''IN_QUEUE'' \<or> job_status = JStr ''IN_PROGRESS'') \<and> wait
                      \<and> \<not> time_time (after_call E (status_request c job_id) w) - start_time > real_of_int max_wait")
        case False
        then show ?thesis using Inr js
          by (subst get_result_loop.simps) (auto simp add: cs Let_def)
      next
        case True
        then obtain s where s: "job_status = JStr s" "pending s"
          by (auto simp: pending_def)
        obtain kvs where k: "status = JObj kvs" "map_of kvs ''status'' = Some (JStr s)"
          using py_get_status_str js s by blast
        obtain rr where rr: "server E (calls w) (status_request c job_id) = Responded rr"
            "status_code rr = 200" "json_body rr = Some status"
          using check_status_Inr cs Inr by blast
        have rep: "reports (server E (calls w) (status_request c job_id)) s"
          using rr k by (simp add: reports_def)
        have "get_result_loop E c job_id wait max_wait start_time w =
           get_result_loop E c job_id wait max_wait start_time
             (time_sleep E 1 (after_call E (status_request c job_id) w))"
          using True Inr js
          by (subst get_result_loop.simps) (auto simp add: cs Let_def)
        then show ?thesis using True rep s by blast
      qed
    qed
  qed
qed

lemma round_measure:
  assumes "\<not> time_time (after_call E rq w) - start_time > real_of_int max_wait"
  shows "nat (\<lfloor>start_time + real_of_int max_wait - time_time (time_sleep E 1 (after_call E rq w))\<rfloor> + 1)
           < nat (\<lfloor>start_time + real_of_int max_wait - time_time w\<rfloor> + 1)"
proof -
  let ?w1 = "after_call E rq w"
  have t1: "time_time w \<le> time_time ?w1"
    by (simp add: time_time_def after_call_def)
  have t2: "time_time ?w1 + 1 \<le> time_time (time_sleep E 1 ?w1)"
    by (simp add: time_time_def time_sleep_def add_divide_distrib)
  have a: "0 \<le> \<lfloor>start_time + real_of_int max_wait - time_time w\<rfloor>"
    using assms t1 by simp
  have b: "\<lfloor>start_time + real_of_int max_wait - time_time (time_sleep E 1 ?w1)\<rfloor>
            \<le> \<lfloor>start_time + real_of_int max_wait - time_time w - 1\<rfloor>"
    using t1 t2 by (intro floor_mono) simp
  have "\<lfloor>start_time + real_of_int max_wait - time_time w - 1\<rfloor>
          = \<lfloor>start_time + real_of_int max_wait - time_time w\<rfloor> - 1"
    by simp
  with a b show ?thesis by simp
qed

lemma loop_log:
  "\<exists>L. log (fst (get_result_loop E c job_id wait max_wait start_time w)) =
          log w @ HttpCall (status_request c job_id) (clock w) # L
        \<and> polls_in_budget start_time max_wait L"
proof (induction w rule: measure_induct_rule
         [where f = "\<lambda>w. nat (\<lfloor>start_time + real_of_int max_wait - time_time w\<rfloor> + 1)"])
  case (less w)
  let ?rq = "status_request c job_id"
  let ?w1 = "after_call E ?rq w"
  let ?w2 = "time_sleep E 1 ?w1"
  from loop_round[of E c job_id wait max_wait start_time w]
  show ?case
  proof (elim disjE conjE)
    assume "fst (get_result_loop E c job_id wait max_wait start_time w) = ?w1"
    then have "log (fst (get_result_loop E c job_id wait max_wait start_time w)) =
          log w @ HttpCall ?rq (clock w) # [] \<and> polls_in_budget start_time max_wait []"
      by (simp add: after_call_def)
    then show ?thesis by blast
  next
    assume within: "\<not> time_time ?w1 - start_time > real_of_int max_wait"
      and again: "get_result_loop E c job_id wait max_wait start_time w =
                   get_result_loop E c job_id wait max_wait start_time ?w2"
    obtain L where L: "log (fst (get_result_loop E c job_id wait max_wait start_time ?w2)) =
          log ?w2 @ HttpCall ?rq (clock ?w2) # L" "polls_in_budget start_time max_wait L"
      using less.IH[OF round_measure[OF within]] by blast
    have "log (fst (get_result_loop E c job_id wait max_wait start_time w)) =
            log w @ HttpCall ?rq (clock w) # (Slept 1 (clock ?w1) # HttpCall ?rq (clock ?w2) # L)"
      using L(1) again by (simp add: time_sleep_def after_call_def)
    moreover have "polls_in_budget start_time max_wait (Slept 1 (clock ?w1) # HttpCall ?rq (clock ?w2) # L)"
      using L(2) within by (simp add: time_time_def time_sleep_def)
    ultimately show ?thesis by blast
  qed
qed

section \<open>Which exceptions can leave the loop\<close>

lemma requests_exc_class [simp]: "exc_class_of (requests_exc f) \<noteq> TimeoutError"
  by (cases f) simp_all

lemma py_get_class: "py_get x k d = Inl e \<Longrightarrow> exc_class_of e = AttributeError"
  by (cases x) auto

lemma py_in_class: "py_in k x = Inl e \<Longrightarrow> exc_class_of e = TypeError"
  by (cases x) auto

lemma py_index_class: "py_index x k = Inl e \<Longrightarrow> exc_class_of e = KeyError \<or> exc_class_of e = TypeError"
  by (cases x) (auto split: option.splits)

lemma a2b_base64_class: "a2b_base64 s q l p out = Inl e \<Longrightarrow> exc_class_of e = BinasciiError"
proof (induction s arbitrary: q l p out)
  case Nil
  then show ?case by (auto split: if_splits)
next
  case (Cons ch rest)
  have "\<exists>q' l' p' out'. a2b_base64 rest q' l' p' out' = Inl e"
    using Cons.prems by (simp split: if_splits option.splits) blast+
  then show ?case using Cons.IH by blast
qed

lemma b64decode_class:
  "b64decode x = Inl e \<Longrightarrow> exc_class_of e = ValueError \<or> exc_class_of e = TypeError \<or> exc_class_of e = BinasciiError"
  by (cases x) (auto split: if_splits dest: a2b_base64_class)

lemma Image_open_class: "Image_open E d = Inl e \<Longrightarrow> exc_class_of e = UnidentifiedImageError"
  by (auto simp: Image_open_def split: if_splits)

lemma check_status_class:
  "check_status E c job_id w = (w1, Inl e) \<Longrightarrow> exc_class_of e \<noteq> TimeoutError"
  by (auto simp: check_status_def requests_get_def http_send_def Let_def
        split: http_outcome.splits option.splits if_splits)

lemma completed_class:
  assumes "(case py_get status ''output'' (JObj []) of
                       Inl e \<Rightarrow> Inl e
                     | Inr output \<Rightarrow>
                         (case py_in ''error'' output of
                            Inl e \<Rightarrow> Inl e
                          | Inr output_has_error \<Rightarrow>
                              if output_has_error then
                                (case py_index output ''error'' of
                                   Inl e \<Rightarrow> Inl e
                                 | Inr v \<Rightarrow>
                                     Inl (PyExc Exception [Lit ''Generation failed: '', Fmt v]))
                              else
                                (case py_get output ''image'' JNull of
                                   Inl e \<Rightarrow> Inl e
                                 | Inr img_base64 \<Rightarrow>
                                     (case b64decode img_base64 of
                                        Inl e \<Rightarrow> Inl e
                                      | Inr img_data \<Rightarrow>
                                          (case Image_open E img_data of
                                             Inl e \<Rightarrow> Inl e
                                           | Inr img \<Rightarrow> Inr (Some img)))))) = Inl e"
  shows "exc_class_of e \<noteq> TimeoutError"
proof (cases "py_get status ''output'' (JObj [])")
  case (Inl a)
  then show ?thesis using assms py_get_class[OF Inl] by simp
next
  case out: (Inr outv)
  show ?thesis
  proof (cases "py_in ''error'' outv")
    case (Inl a)
    then show ?thesis using assms out py_in_class[OF Inl] by simp
  next
    case he: (Inr has)
    show ?thesis
    proof (cases has)
      case True
      show ?thesis
      proof (cases "py_index outv ''error''")
        case (Inl a)
        then show ?thesis using assms out he True py_index_class[OF Inl] by auto
      next
        case (Inr v)
        then show ?thesis using assms out he True by auto
      qed
    next
      case False
      show ?thesis
      proof (cases "py_get outv ''image'' JNull")
        case (Inl a)
        then show ?thesis using assms out he False py_get_class[OF Inl] by simp
      next
        case im: (Inr img_base64)
        show ?thesis
        proof (cases "b64decode img_base64")
          case (Inl a)
          then show ?thesis using assms out he False im b64decode_class[OF Inl] by auto
        next
          case d: (Inr img_data)
          show ?thesis
          proof (cases "Image_open E img_data")
            case (Inl a)
            then show ?thesis using assms out he False im d Image_open_class[OF Inl] by simp
          next
            case (Inr img)
            then show ?thesis using assms out he False im d by simp
          qed
        qed
      qed
    qed
  qed
qed

lemma loop_round_timeout:
  assumes "get_result_loop E c job_id wait max_wait start_time w = (w', Inl e)"
      and "exc_class_of e = TimeoutError"
  shows "wait \<and> (\<exists>s. reports (server E (calls w) (status_request c job_id)) s \<and> pending s) \<and>
         (if time_time (after_call E (status_request c job_id) w) - start_time > real_of_int max_wait
          then w' = after_call E (status_request c job_id) w \<and>
               e = PyExc TimeoutError [Lit ''Job did not complete within '', Fmt (JInt max_wait), Lit '' seconds'']
          else get_result_loop E c job_id wait max_wait start_time
                 (time_sleep E 1 (after_call E (status_request c job_id) w)) = (w', Inl e))"
proof -
  let ?w1 = "after_call E (status_request c job_id) w"
  obtain r where cs: "check_status E c job_id w = (?w1, r)"
    using check_status_fst[of E c job_id w] by (cases "check_status E c job_id w") simp
  show ?thesis
  proof (cases r)
    case (Inl e')
    then have "get_result_loop E c job_id wait max_wait start_time w = (?w1, Inl e')"
      by (subst get_result_loop.simps) (simp add: cs)
    then show ?thesis using assms check_status_class cs Inl by fastforce
  next
    case (Inr status)
    show ?thesis
    proof (cases "py_get status ''status'' JNull")
      case (Inl e')
      then have "get_result_loop E c job_id wait max_wait start_time w = (?w1, Inl e')"
        using Inr by (subst get_result_loop.simps) (simp add: cs)
      then show ?thesis using assms py_get_class[OF Inl] by auto
    next
      case js: (Inr job_status)
      show ?thesis
      proof (cases "job_status = JStr ''IN_QUEUE'' \<or> job_status = JStr ''IN_PROGRESS''")
        case False
        have "get_result_loop E c job_id wait max_wait start_time w = (w', Inl e) \<Longrightarrow> exc_class_of e \<noteq> TimeoutError"
        proof (cases "job_status = JStr ''COMPLETED''")
          case True
          assume a: "get_result_loop E c job_id wait max_wait start_time w = (w', Inl e)"
          show ?thesis
            using a True Inr js
            by (subst (asm) get_result_loop.simps) (auto simp add: cs dest: completed_class)
        next
          case nc: False
          assume a: "get_result_loop E c job_id wait max_wait start_time w = (w', Inl e)"
          show ?thesis
          proof (cases "job_status = JStr ''FAILED''")
            case True
            show ?thesis
            proof (cases "py_get status ''error'' (JStr ''Unknown error'')")
              case (Inl a')
              then show ?thesis using a True Inr js py_get_class[OF Inl]
                by (subst (asm) get_result_loop.simps) (auto simp add: cs)
            next
              case (Inr v)
              then show ?thesis using a True \<open>r = Inr status\<close> js
                by (subst (asm) get_result_loop.simps) (auto simp add: cs)
            qed
          next
            case nf: False
            show ?thesis using a nc nf False Inr js
              by (subst (asm) get_result_loop.simps) (auto simp add: cs)
          qed
        qed
        then show ?thesis using assms by blast
      next
        case True
        then obtain s where s: "job_status = JStr s" "pending s"
          by (auto simp: pending_def)
        obtain kvs where k: "status = JObj kvs" "map_of kvs ''status'' = Some (JStr s)"
          using py_get_status_str js s by blast
        obtain rr where rr: "server E (calls w) (status_request c job_id) = Responded rr"
            "status_code rr = 200" "json_body rr = Some status"
          using check_status_Inr cs Inr by blast
        have rep: "reports (server E (calls w) (status_request c job_id)) s"
          using rr k by (simp add: reports_def)
        have w: wait
        proof (rule ccontr)
          assume "\<not> wait"
          then have "get_result_loop E c job_id wait max_wait start_time w = (?w1, Inr None)"
            using loop_pending_nowait[OF rep s(2)] by simp
          then show False using assms by simp
        qed
        show ?thesis
          using assms(1) w rep s loop_pending_wait[OF rep s(2), of max_wait start_time]
          by (auto split: if_splits)
      qed
    qed
  qed
qed

lemma loop_timeout_only:
  "get_result_loop E c job_id wait max_wait start_time w = (w', Inl e) \<Longrightarrow>
   exc_class_of e = TimeoutError \<Longrightarrow>
     wait \<and> time_time w' - start_time > real_of_int max_wait \<and> 0 < calls w' \<and>
     (\<exists>s. reports (server E (calls w' - 1) (status_request c job_id)) s \<and> pending s) \<and>
     e = PyExc TimeoutError [Lit ''Job did not complete within '', Fmt (JInt max_wait), Lit '' seconds'']"
proof (induction w rule: measure_induct_rule
         [where f = "\<lambda>w. nat (\<lfloor>start_time + real_of_int max_wait - time_time w\<rfloor> + 1)"])
  case (less w)
  let ?w1 = "after_call E (status_request c job_id) w"
  note r = loop_round_timeout[OF less.prems]
  show ?case
  proof (cases "time_time ?w1 - start_time > real_of_int max_wait")
    case True
    with r have "w' = ?w1" and "e = PyExc TimeoutError [Lit ''Job did not complete within '', Fmt (JInt max_wait), Lit '' seconds'']"
      by simp_all
    moreover have "calls ?w1 - 1 = calls w" "0 < calls ?w1" by (simp_all add: after_call_def)
    ultimately show ?thesis using r True by auto
  next
    case False
    with r have "get_result_loop E c job_id wait max_wait start_time (time_sleep E 1 ?w1) = (w', Inl e)"
      by auto
    from less.IH[OF round_measure[OF False] this less.prems(2)] show ?thesis .
  qed
qed

lemma loop_all_pending:
  assumes "\<forall>n. \<exists>s. reports (server E n (status_request c job_id)) s \<and> pending s"
  shows "\<exists>w'. get_result_loop E c job_id True max_wait start_time w =
            (w', Inl (PyExc TimeoutError [Lit ''Job did not complete within '', Fmt (JInt max_wait), Lit '' seconds'']))
          \<and> time_time w' - start_time > real_of_int max_wait"
proof (induction w rule: measure_induct_rule
         [where f = "\<lambda>w. nat (\<lfloor>start_time + real_of_int max_wait - time_time w\<rfloor> + 1)"])
  case (less w)
  let ?w1 = "after_call E (status_request c job_id) w"
  obtain s where s: "reports (server E (calls w) (status_request c job_id)) s" "pending s"
    using assms by blast
  show ?case
  proof (cases "time_time ?w1 - start_time > real_of_int max_wait")
    case True
    then show ?thesis using loop_pending_wait[OF s, of max_wait start_time] by simp
  next
    case False
    then show ?thesis
      using loop_pending_wait[OF s, of max_wait start_time] less.IH[OF round_measure[OF False]]
      by simp
  qed
qed

lemma reports_unique: "reports out s \<Longrightarrow> reports out s' \<Longrightarrow> s = s'"
  by (auto simp: reports_def split: http_outcome.splits option.splits json.splits)

lemma answering_simps:
  "server (answering out ms) n rq = out" "latency (answering out ms) n = ms"
  "oversleep (answering out ms) n = 0" "pil_identifies (answering out ms) d = True"
  by (simp_all add: answering_def)

lemma pending_run:
  "get_result (answering (ok_json (JObj [(''status'', JStr ''IN_PROGRESS'')])) 500) client0 ''job-1'' True 2 world0 =
     (\<lparr>clock = 3500, calls = 3, naps = 2,
       log = [HttpCall (status_request client0 ''job-1'') 0, Slept 1 500,
              HttpCall (status_request client0 ''job-1'') 1500, Slept 1 2000,
              HttpCall (status_request client0 ''job-1'') 3000]\<rparr>,
      Inl (PyExc TimeoutError [Lit ''Job did not complete within '', Fmt (JInt 2), Lit '' seconds'']))"
proof -
  let ?E = "answering (ok_json (JObj [(''status'', JStr ''IN_PROGRESS'')])) 500"
  have r: "\<And>w. reports (server ?E (calls w) (status_request client0 ''job-1'')) ''IN_PROGRESS''"
    by (simp add: reports_def answering_def ok_json_def)
  have p: "pending ''IN_PROGRESS''" by (simp add: pending_def)
  note step = loop_pending_wait[OF r p]
  show ?thesis
    unfolding get_result_def Let_def
    apply (subst step)
    apply (simp add: time_time_def after_call_def time_sleep_def world0_def answering_simps)
    apply (subst step)
    apply (simp add: time_time_def after_call_def time_sleep_def world0_def answering_simps)
    apply (subst step)
    apply (simp add: time_time_def after_call_def time_sleep_def world0_def answering_simps)
    done
qed

section \<open>What the submissions and the probe do with an answer\<close>

lemma loop_not_pending:
  assumes "reports (server E (calls w) (status_request c job_id)) s" and "\<not> pending s"
      and "snd (get_result_loop E c job_id wait max_wait start_time w) = Inl e"
  shows "exc_class_of e \<noteq> TimeoutError"
proof
  assume t: "exc_class_of e = TimeoutError"
  obtain w' where "get_result_loop E c job_id wait max_wait start_time w = (w', Inl e)"
    using assms(3) by (cases "get_result_loop E c job_id wait max_wait start_time w") simp
  from loop_round_timeout[OF this t] obtain s' where
    "reports (server E (calls w) (status_request c job_id)) s'" "pending s'" by blast
  with assms(1,2) reports_unique show False by blast
qed

lemma http_calls_append: "http_calls (xs @ ys) = http_calls xs @ http_calls ys"
  by (induction xs rule: http_calls.induct) simp_all

lemma generate_sync_world:
  "fst (generate_sync E c prompt height width steps seed timeout w) =
     after_call E (sync_request c prompt height width steps seed timeout)
       (print_line [Lit ''Sending request to '', Fmt (JStr (base_url c @ ''/runsync''))] w)"
  by (simp add: generate_sync_def requests_post_def http_send_def sync_request_def Let_def
        split: sum.splits option.splits)

lemma generate_async_world:
  "fst (generate_async E c prompt height width steps seed w) =
     after_call E (async_request c prompt height width steps seed) w"
  by (simp add: generate_async_def requests_post_def http_send_def async_request_def Let_def
        split: sum.splits option.splits)

lemma generate_sync_answer:
  assumes "server E (calls w) (sync_request c prompt height width steps seed timeout) = Responded r"
  shows "snd (generate_sync E c prompt height width steps seed timeout w) =
     (if status_code r \<noteq> 200 then
        Inl (PyExc Exception
               [Lit ''API request failed: '', Fmt (JInt (status_code r)),
                Lit '' - '', Fmt (JStr (resp_text r))])
      else
        (case json_body r of
           None \<Rightarrow> Inl (PyExc JSONDecodeError [])
         | Some result \<Rightarrow>
             (case py_in ''error'' result of
                Inl e \<Rightarrow> Inl e
              | Inr has_error \<Rightarrow>
                  if has_error then
                    (case py_index result ''error'' of
                       Inl e \<Rightarrow> Inl e
                     | Inr v \<Rightarrow> Inl (PyExc Exception [Lit ''Generation failed: '', Fmt v]))
                  else
                    (case py_get result ''output'' (JObj []) of
                       Inl e \<Rightarrow> Inl e
                     | Inr outv \<Rightarrow>
                         (case py_in ''error'' outv of
                            Inl e \<Rightarrow> Inl e
                          | Inr output_has_error \<Rightarrow>
                              if output_has_error then
                                (case py_index outv ''error'' of
                                   Inl e \<Rightarrow> Inl e
                                 | Inr v \<Rightarrow>
                                     Inl (PyExc Exception [Lit ''Generation failed: '', Fmt v]))
                              else
                                (case py_get outv ''image'' JNull of
                                   Inl e \<Rightarrow> Inl e
                                 | Inr img_base64 \<Rightarrow>
                                     if \<not> py_truthy img_base64 then
                                       Inl (PyExc Exception
                                              [Lit ''No image in response: '', Fmt result])
                                     else
                                       (case b64decode img_base64 of
                                          Inl e \<Rightarrow> Inl e
                                        | Inr img_data \<Rightarrow> Image_open E img_data)))))))"
  using assms
  by (simp add: generate_sync_def requests_post_def http_send_def sync_request_def
        print_line_def Let_def split: option.splits)

lemma generate_async_answer:
  assumes "server E (calls w) (async_request c prompt height width steps seed) = Responded r"
  shows "snd (generate_async E c prompt height width steps seed w) =
     (if status_code r \<noteq> 200 then
        Inl (PyExc Exception
               [Lit ''API request failed: '', Fmt (JInt (status_code r)),
                Lit '' - '', Fmt (JStr (resp_text r))])
      else
        (case json_body r of
           None \<Rightarrow> Inl (PyExc JSONDecodeError [])
         | Some result \<Rightarrow> py_get result ''id'' JNull))"
  using assms
  by (simp add: generate_async_def requests_post_def http_send_def async_request_def
        Let_def split: option.splits)

lemma health_check_answer:
  "health_check E c w =
     (after_call E (health_request c) w,
      Inr (case server E (calls w) (health_request c) of
             Raised f \<Rightarrow> False
           | Responded r \<Rightarrow> status_code r = 200))"
  by (simp add: health_check_def requests_get_def http_send_def health_request_def Let_def
        split: http_outcome.splits)

lemma check_status_answer:
  assumes "server E (calls w) (status_request c job_id) = Responded r"
  shows "check_status E c job_id w =
     (after_call E (status_request c job_id) w,
      if status_code r \<noteq> 200 then
        Inl (PyExc Exception
               [Lit ''Status check failed: '', Fmt (JInt (status_code r)),
                Lit '' - '', Fmt (JStr (resp_text r))])
      else
        (case json_body r of
           None \<Rightarrow> Inl (PyExc JSONDecodeError [])
         | Some status \<Rightarrow> Inr status))"
  using assms
  by (simp add: check_status_def requests_get_def http_send_def status_request_def
        Let_def split: option.splits)

lemma loop_status_check_failed:
  assumes "server E (calls w) (status_request c job_id) = Responded r" and "status_code r \<noteq> 200"
  shows "get_result_loop E c job_id wait max_wait start_time w =
           (after_call E (status_request c job_id) w,
            Inl (PyExc Exception
                   [Lit ''Status check failed: '', Fmt (JInt (status_code r)),
                    Lit '' - '', Fmt (JStr (resp_text r))]))"
  using assms(2)
  by (subst get_result_loop.simps) (simp add: check_status_answer[OF assms(1)])

lemma loop_failed:
  assumes "server E (calls w) (status_request c job_id) = Responded r" and "status_code r = 200"
      and "json_body r = Some (JObj kvs)" and "map_of kvs ''status'' = Some (JStr ''FAILED'')"
  shows "get_result_loop E c job_id wait max_wait start_time w =
           (after_call E (status_request c job_id) w,
            Inl (PyExc Exception
                   [Lit ''Job failed: '',
                    Fmt (case map_of kvs ''error'' of None \<Rightarrow> JStr ''Unknown error'' | Some v \<Rightarrow> v)]))"
  using assms(2-4)
  by (subst get_result_loop.simps) (simp add: check_status_answer[OF assms(1)])

lemma loop_completed_without_image:
  assumes "server E (calls w) (status_request c job_id) = Responded r" and "status_code r = 200"
      and "json_body r = Some (JObj kvs)" and "map_of kvs ''status'' = Some (JStr ''COMPLETED'')"
      and "map_of kvs ''output'' = Some (JObj okvs)"
      and "map_of okvs ''error'' = None" and "map_of okvs ''image'' = None"
  shows "get_result_loop E c job_id wait max_wait start_time w =
           (after_call E (status_request c job_id) w, Inl (PyExc TypeError []))"
  using assms(2-7)
  by (subst get_result_loop.simps) (simp add: check_status_answer[OF assms(1)])

section \<open>Decoding what the encoder wrote\<close>

lemma b64_alphabet_length: "length b64_alphabet = 64"
  by (simp add: b64_alphabet_def)

lemma b64_alphabet_distinct: "distinct b64_alphabet"
  by (simp add: b64_alphabet_def)

lemma byte_lt64_unat: "(v::byte) < 64 \<Longrightarrow> unat v < 64"
  by (simp add: word_less_nat_alt)

lemma b64_value_char: "v < 64 \<Longrightarrow> b64_value (b64_char v) = Some v"
proof -
  assume "v < 64"
  then have u: "unat v < 64" by (rule byte_lt64_unat)
  have "map_of (zip b64_alphabet [0..<64]) (b64_alphabet ! unat v) = Some ([0..<64] ! unat v)"
    using u by (intro map_of_zip_nth) (simp_all add: b64_alphabet_length b64_alphabet_distinct)
  then show ?thesis using u by (simp add: b64_value_def b64_char_def)
qed

lemma b64_char_in_alphabet: "v < 64 \<Longrightarrow> b64_char v \<in> set b64_alphabet"
  using byte_lt64_unat[of v] by (simp add: b64_char_def b64_alphabet_length)

lemma b64_char_not_pad: "v < 64 \<Longrightarrow> b64_char v \<noteq> CHR ''=''"
proof -
  have "CHR ''='' \<notin> set b64_alphabet" by (simp add: b64_alphabet_def)
  then show "v < 64 \<Longrightarrow> b64_char v \<noteq> CHR ''=''" using b64_char_in_alphabet by metis
qed

lemma b64_char_ascii: "v < 64 \<Longrightarrow> (of_char (b64_char v) :: nat) < 128"
proof -
  have "\<forall>ch \<in> set b64_alphabet. (of_char ch :: nat) < 128" by (simp add: b64_alphabet_def)
  then show "v < 64 \<Longrightarrow> (of_char (b64_char v) :: nat) < 128" using b64_char_in_alphabet by blast
qed

lemma m3: "(3::byte) = mask 2" and m15: "(15::byte) = mask 4" and m63: "(63::byte) = mask 6"
  by (simp_all add: mask_eq_exp_minus_1)

lemma shift_back:
  "Suc (Suc (n - 2)) = (if 2 \<le> n then n else 2)"
  "4 + (n - 4) = (if 4 \<le> n then n else 4)"
  "6 + (n - 6) = (if 6 \<le> n then n else 6)"
  by arith+

lemma lt64: "take_bit 6 (x::byte) = x \<Longrightarrow> x < 64"
proof -
  assume "take_bit 6 x = x"
  then have e: "x AND mask 6 = x" by (simp add: take_bit_eq_mask)
  have "x AND mask 6 < 2 ^ 6" by (rule and_mask_less_size) (simp add: word_size)
  with e show ?thesis by simp
qed

lemma sextet1: "drop_bit 2 (a::byte) < 64"
  by (rule lt64, rule bit_word_eqI) (auto simp: bit_simps dest: bit_imp_le_length)

lemma sextet2: "push_bit 4 ((a::byte) AND 3) OR drop_bit 4 (b::byte) < 64"
  unfolding m3 by (rule lt64, rule bit_word_eqI) (auto simp: bit_simps dest: bit_imp_le_length)

lemma sextet3: "push_bit 2 ((b::byte) AND 15) OR drop_bit 6 (c::byte) < 64"
  unfolding m15 by (rule lt64, rule bit_word_eqI) (auto simp: bit_simps dest: bit_imp_le_length)

lemma sextet4: "(c::byte) AND 63 < 64"
  unfolding m63 by (rule lt64, rule bit_word_eqI) (auto simp: bit_simps)

lemma sextet2_last: "push_bit 4 ((a::byte) AND 3) < 64"
  unfolding m3 by (rule lt64, rule bit_word_eqI) (auto simp: bit_simps dest: bit_imp_le_length)

lemma sextet3_last: "push_bit 2 ((b::byte) AND 15) < 64"
  unfolding m15 by (rule lt64, rule bit_word_eqI) (auto simp: bit_simps dest: bit_imp_le_length)

lemma byte1: "push_bit 2 (drop_bit 2 (a::byte)) OR drop_bit 4 (push_bit 4 (a AND 3) OR drop_bit 4 (b::byte)) = a"
  unfolding m3 by (rule bit_word_eqI) (auto simp: bit_simps shift_back split: if_splits)

lemma byte2: "push_bit 4 ((push_bit 4 (a AND 3) OR drop_bit 4 (b::byte)) AND 15) OR drop_bit 2 (push_bit 2 (b AND 15) OR drop_bit 6 (c::byte)) = b"
  unfolding m3 m15 by (rule bit_word_eqI) (auto simp: bit_simps shift_back split: if_splits)

lemma byte3: "push_bit 6 ((push_bit 2 (b AND 15) OR drop_bit 6 (c::byte)) AND 3) OR (c AND 63) = c"
  unfolding m3 m15 m63 by (rule bit_word_eqI) (auto simp: bit_simps shift_back split: if_splits)

lemma byte1_last: "push_bit 2 (drop_bit 2 (a::byte)) OR drop_bit 4 (push_bit 4 (a AND 3)) = a"
  unfolding m3 by (rule bit_word_eqI) (auto simp: bit_simps shift_back split: if_splits)

lemma byte2_last: "push_bit 4 ((push_bit 4 (a AND 3) OR drop_bit 4 (b::byte)) AND 15) OR drop_bit 2 (push_bit 2 (b AND 15)) = b"
  unfolding m3 m15 by (rule bit_word_eqI) (auto simp: bit_simps shift_back split: if_splits)

text \<open>One step of the scan on a character of the alphabet.\<close>

lemma a2b_step:
  assumes "v < 64"
  shows "a2b_base64 (b64_char v # rest) quad_pos leftchar pads out =
     (if quad_pos = 0 then a2b_base64 rest 1 v 0 out
      else if quad_pos = 1 then
        a2b_base64 rest 2 (v AND 15) 0 (out @ [push_bit 2 leftchar OR drop_bit 4 v])
      else if quad_pos = 2 then
        a2b_base64 rest 3 (v AND 3) 0 (out @ [push_bit 4 leftchar OR drop_bit 2 v])
      else
        a2b_base64 rest 0 0 0 (out @ [push_bit 6 leftchar OR v]))"
  using b64_char_not_pad[OF assms] b64_value_char[OF assms] by simp

lemma a2b_group:
  "a2b_base64 ([b64_char (drop_bit 2 a), b64_char (push_bit 4 (a AND 3) OR drop_bit 4 b),
      b64_char (push_bit 2 (b AND 15) OR drop_bit 6 c), b64_char (c AND 63)] @ rest) 0 0 0 out =
   a2b_base64 rest 0 0 0 (out @ [a, b, c])"
  by (simp add: a2b_step sextet1 sextet2 sextet3 sextet4 byte1 byte2 byte3 byte1_last byte2_last del: a2b_base64.simps push_bit_and)

lemma a2b_encode: "a2b_base64 (b64encode x) 0 0 0 out = Inr (out @ x)"
proof (induction x arbitrary: out rule: b64encode.induct)
  case 1
  then show ?case by simp
next
  case (2 a)
  have "a2b_base64 (b64encode [a]) 0 0 0 out =
          a2b_base64 [CHR ''='', CHR ''=''] 2 (push_bit 4 (a AND 3) AND 15) 0 (out @ [a])"
    by (simp add: a2b_step sextet1 sextet2_last byte1 byte1_last del: a2b_base64.simps push_bit_and)
  then show ?case by simp
next
  case (3 a b)
  have "a2b_base64 (b64encode [a, b]) 0 0 0 out =
          a2b_base64 [CHR ''=''] 3 (push_bit 2 (b AND 15) AND 3) 0 (out @ [a, b])"
    by (simp add: a2b_step sextet1 sextet2 sextet3_last byte1 byte2 byte1_last byte2_last del: a2b_base64.simps push_bit_and)
  then show ?case by simp
next
  case (4 a b c rest)
  have "a2b_base64 (b64encode (a # b # c # rest)) 0 0 0 out =
          a2b_base64 (b64encode rest) 0 0 0 (out @ [a, b, c])"
    using a2b_group[of a b c "b64encode rest" out] by simp
  then show ?case using 4 by simp
qed

lemma b64encode_ascii: "\<forall>ch \<in> set (b64encode x). (of_char ch :: nat) < 128"
  by (induction x rule: b64encode.induct)
     (simp_all add: b64_char_ascii sextet1 sextet2 sextet3 sextet4 sextet2_last sextet3_last del: push_bit_and)

section \<open>Further answers: a finished job, an error in the output, a call that raises\<close>

lemma scripted_simps:
  "server (scripted outs final ms) n rq = (if n < length outs then outs ! n else final)"
  "latency (scripted outs final ms) n = ms"
  "oversleep (scripted outs final ms) n = 0" "pil_identifies (scripted outs final ms) d = True"
  by (simp_all add: scripted_def)

lemma loop_completed_image:
  assumes "server E (calls w) (status_request c job_id) = Responded r" and "status_code r = 200"
      and "json_body r = Some (JObj kvs)" and "map_of kvs ''status'' = Some (JStr ''COMPLETED'')"
      and "map_of kvs ''output'' = Some (JObj okvs)"
      and "map_of okvs ''error'' = None" and "map_of okvs ''image'' = Some img"
      and "b64decode img = Inr x" and "pil_identifies E x"
  shows "get_result_loop E c job_id wait max_wait start_time w =
           (after_call E (status_request c job_id) w, Inr (Some (Image x)))"
  using assms(2-9)
  by (subst get_result_loop.simps)
     (simp add: check_status_answer[OF assms(1)] Image_open_def)

lemma png_magic_encoded: "b64encode [137, 80, 78, 71] = ''iVBORw==''"
  by (simp add: b64_char_def b64_alphabet_def)

lemma png_magic_decoded: "b64decode (JStr ''iVBORw=='') = Inr [137, 80, 78, 71]"
proof -
  have "\<not> list_ex (\<lambda>c. 128 \<le> (of_char c :: nat)) ''iVBORw==''" by simp
  moreover have "a2b_base64 ''iVBORw=='' 0 0 0 [] = Inr [137, 80, 78, 71]"
    using a2b_encode[of "[137, 80, 78, 71]" "[]"] by (simp only: png_magic_encoded append_Nil)
  ultimately show ?thesis by (simp del: a2b_base64.simps)
qed

lemma loop_completed_output_error:
  assumes "server E (calls w) (status_request c job_id) = Responded r" and "status_code r = 200"
      and "json_body r = Some (JObj kvs)" and "map_of kvs ''status'' = Some (JStr ''COMPLETED'')"
      and "map_of kvs ''output'' = Some (JObj okvs)" and "map_of okvs ''error'' = Some v"
  shows "get_result_loop E c job_id wait max_wait start_time w =
           (after_call E (status_request c job_id) w,
            Inl (PyExc Exception [Lit ''Generation failed: '', Fmt v]))"
  using assms(2-6)
  by (subst get_result_loop.simps) (simp add: check_status_answer[OF assms(1)])

lemma check_status_raised:
  assumes "server E (calls w) (status_request c job_id) = Raised f"
  shows "check_status E c job_id w = (after_call E (status_request c job_id) w, Inl (requests_exc f))"
  using assms
  by (simp add: check_status_def requests_get_def http_send_def status_request_def Let_def)

lemma loop_call_raised:
  assumes "server E (calls w) (status_request c job_id) = Raised f"
  shows "get_result_loop E c job_id wait max_wait start_time w =
           (after_call E (status_request c job_id) w, Inl (requests_exc f))"
  by (subst get_result_loop.simps) (simp add: check_status_raised[OF assms])

lemma generate_sync_raised:
  assumes "server E (calls w) (sync_request c prompt height width steps seed timeout) = Raised f"
  shows "snd (generate_sync E c prompt height width steps seed timeout w) = Inl (requests_exc f)"
  using assms
  by (simp add: generate_sync_def requests_post_def http_send_def sync_request_def
        print_line_def Let_def)

lemma generate_async_raised:
  assumes "server E (calls w) (async_request c prompt height width steps seed) = Raised f"
  shows "snd (generate_async E c prompt height width steps seed w) = Inl (requests_exc f)"
  using assms
  by (simp add: generate_async_def requests_post_def http_send_def async_request_def Let_def)

lemma requests_exc_own_class:
  "exc_class_of (requests_exc f) = RequestsConnectionError \<or>
   exc_class_of (requests_exc f) = RequestsTimeout"
  by (cases f) simp_all

section \<open>The claims\<close>

text \<open>
  C6. For every pending status observation (\<^verbatim>\<open>IN_QUEUE\<close> or \<^verbatim>\<open>IN_PROGRESS\<close>),
  \<^verbatim>\<open>get_result\<close> called with \<^verbatim>\<open>wait=False\<close> returns \<^verbatim>\<open>None\<close> without error,
  having made exactly one status query and no sleep: the world it leaves is the one
  right after that query.
\<close>

theorem get_result_no_wait_pending:
  assumes "reports (server E (calls w) (status_request c job_id)) s" and "pending s"
  shows "get_result E c job_id False max_wait w =
           (after_call E (status_request c job_id) w, Inr None)
         \<and> log (fst (get_result E c job_id False max_wait w)) =
             log w @ [HttpCall (status_request c job_id) (clock w)]
         \<and> calls (fst (get_result E c job_id False max_wait w)) = Suc (calls w)
         \<and> naps (fst (get_result E c job_id False max_wait w)) = naps w"
  using loop_pending_nowait[OF assms] by (simp add: get_result_def after_call_def)

theorem get_result_no_wait_pending_witness:
  "reports (server (answering (ok_json (JObj [(''status'', JStr ''IN_QUEUE'')])) 250) (calls world0)
             (status_request client0 ''job-1'')) ''IN_QUEUE''
   \<and> pending ''IN_QUEUE''
   \<and> get_result (answering (ok_json (JObj [(''status'', JStr ''IN_QUEUE'')])) 250) client0 ''job-1'' False 120 world0 =
       (\<lparr>clock = 250, calls = 1, naps = 0, log = [HttpCall (status_request client0 ''job-1'') 0]\<rparr>, Inr None)"
proof -
  have r: "reports (server (answering (ok_json (JObj [(''status'', JStr ''IN_QUEUE'')])) 250) (calls world0)
             (status_request client0 ''job-1'')) ''IN_QUEUE''"
    by (simp add: reports_def answering_def ok_json_def)
  have p: "pending ''IN_QUEUE''" by (simp add: pending_def)
  show ?thesis
    using r p get_result_no_wait_pending[OF r p, of 120]
    by (simp add: after_call_def answering_def world0_def)
qed

text \<open>
  C7. A status string outside \<^verbatim>\<open>IN_QUEUE\<close>, \<^verbatim>\<open>IN_PROGRESS\<close>, \<^verbatim>\<open>COMPLETED\<close>,
  \<^verbatim>\<open>FAILED\<close> ends the poll loop in the round that observes it, with the
  ``Unknown job status'' failure: it is never taken for pending, and neither a sleep
  nor another query follows it. The round may be any round of the loop (any world and
  start time), the first one included.
\<close>

theorem get_result_unknown_status:
  assumes "reports (server E (calls w) (status_request c job_id)) s" and "\<not> known_status s"
  shows "get_result_loop E c job_id wait max_wait start_time w =
           (after_call E (status_request c job_id) w,
            Inl (PyExc Exception [Lit ''Unknown job status: '', Fmt (JStr s)]))
         \<and> get_result E c job_id wait max_wait w =
           (after_call E (status_request c job_id) w,
            Inl (PyExc Exception [Lit ''Unknown job status: '', Fmt (JStr s)]))
         \<and> log (after_call E (status_request c job_id) w) =
             log w @ [HttpCall (status_request c job_id) (clock w)]
         \<and> naps (after_call E (status_request c job_id) w) = naps w"
  using loop_unknown[OF assms] by (simp add: get_result_def after_call_def)

theorem get_result_unknown_status_witness:
  "reports (server (answering (ok_json (JObj [(''status'', JStr ''CANCELLED'')])) 250) (calls world0)
             (status_request client0 ''job-1'')) ''CANCELLED''
   \<and> \<not> known_status ''CANCELLED''
   \<and> get_result (answering (ok_json (JObj [(''status'', JStr ''CANCELLED'')])) 250) client0 ''job-1'' True 120 world0 =
       (\<lparr>clock = 250, calls = 1, naps = 0, log = [HttpCall (status_request client0 ''job-1'') 0]\<rparr>,
        Inl (PyExc Exception [Lit ''Unknown job status: '', Fmt (JStr ''CANCELLED'')]))"
proof -
  have r: "reports (server (answering (ok_json (JObj [(''status'', JStr ''CANCELLED'')])) 250) (calls world0)
             (status_request client0 ''job-1'')) ''CANCELLED''"
    by (simp add: reports_def answering_def ok_json_def)
  have p: "\<not> known_status ''CANCELLED''" by (simp add: known_status_def)
  show ?thesis
    using r p get_result_unknown_status[OF r p, of True 120 0]
    by (simp add: after_call_def answering_def world0_def)
qed

text \<open>
  C3, as the code has it. In the waiting poll loop the elapsed time is read and compared
  with \<open>max_wait\<close> right after each pending observation, before the one-second sleep,
  and not again after it. When it is above \<open>max_wait\<close> at that comparison the loop
  raises \<^verbatim>\<open>TimeoutError\<close>, whose message names \<open>max_wait\<close>, and leaves the world as
  it was right after the query: no sleep and no further query. Otherwise it sleeps one
  second and goes round again. So every status query but the first follows a sleep that
  began with the elapsed time within \<open>max_wait\<close>, at least a second before the query
  was issued; and a \<^verbatim>\<open>TimeoutError\<close> of a whole call names \<open>max_wait\<close> and comes with
  the elapsed time above it.
\<close>

theorem get_result_deadline_checked_before_sleep:
  "(\<exists>L. log (fst (get_result E c job_id wait max_wait w)) =
          log w @ HttpCall (status_request c job_id) (clock w) # L
        \<and> polls_in_budget (time_time w) max_wait L)
   \<and> (\<forall>w' e. get_result E c job_id wait max_wait w = (w', Inl e) \<and> exc_class_of e = TimeoutError
         \<longrightarrow> e = PyExc TimeoutError
                  [Lit ''Job did not complete within '', Fmt (JInt max_wait), Lit '' seconds'']
             \<and> time_time w' - time_time w > real_of_int max_wait)
   \<and> (reports (server E (calls w) (status_request c job_id)) s \<and> pending s
      \<and> time_time (after_call E (status_request c job_id) w) - start_time > real_of_int max_wait
     \<longrightarrow> get_result_loop E c job_id True max_wait start_time w =
           (after_call E (status_request c job_id) w,
            Inl (PyExc TimeoutError
                   [Lit ''Job did not complete within '', Fmt (JInt max_wait), Lit '' seconds''])))
   \<and> (reports (server E (calls w) (status_request c job_id)) s \<and> pending s
      \<and> \<not> time_time (after_call E (status_request c job_id) w) - start_time > real_of_int max_wait
     \<longrightarrow> get_result_loop E c job_id True max_wait start_time w =
           get_result_loop E c job_id True max_wait start_time
             (time_sleep E 1 (after_call E (status_request c job_id) w)))"
proof (intro conjI impI; (elim conjE)?)
  show "\<exists>L. log (fst (get_result E c job_id wait max_wait w)) =
          log w @ HttpCall (status_request c job_id) (clock w) # L
        \<and> polls_in_budget (time_time w) max_wait L"
    using loop_log[of E c job_id wait max_wait "time_time w" w] by (simp add: get_result_def)
next
  show "\<forall>w' e. get_result E c job_id wait max_wait w = (w', Inl e) \<and> exc_class_of e = TimeoutError
         \<longrightarrow> e = PyExc TimeoutError
                  [Lit ''Job did not complete within '', Fmt (JInt max_wait), Lit '' seconds'']
             \<and> time_time w' - time_time w > real_of_int max_wait"
    using loop_timeout_only[of E c job_id wait max_wait "time_time w" w]
    by (simp add: get_result_def)
next
  assume "reports (server E (calls w) (status_request c job_id)) s" and "pending s"
    and "time_time (after_call E (status_request c job_id) w) - start_time > real_of_int max_wait"
  then show "get_result_loop E c job_id True max_wait start_time w =
           (after_call E (status_request c job_id) w,
            Inl (PyExc TimeoutError
                   [Lit ''Job did not complete within '', Fmt (JInt max_wait), Lit '' seconds'']))"
    by (simp add: loop_pending_wait)
next
  assume "reports (server E (calls w) (status_request c job_id)) s" and "pending s"
    and "\<not> time_time (after_call E (status_request c job_id) w) - start_time > real_of_int max_wait"
  then show "get_result_loop E c job_id True max_wait start_time w =
           get_result_loop E c job_id True max_wait start_time
             (time_sleep E 1 (after_call E (status_request c job_id) w))"
    by (simp add: loop_pending_wait)
qed

theorem get_result_deadline_checked_before_sleep_witness:
  "(\<exists>L. log (fst (get_result (answering (ok_json (JObj [(''status'', JStr ''IN_PROGRESS'')])) 500)
                     client0 ''job-1'' True 2 world0)) =
          log world0 @ HttpCall (status_request client0 ''job-1'') (clock world0) # L
        \<and> polls_in_budget (time_time world0) 2 L)
   \<and> get_result (answering (ok_json (JObj [(''status'', JStr ''IN_PROGRESS'')])) 500) client0 ''job-1'' True 2 world0 =
       (\<lparr>clock = 3500, calls = 3, naps = 2,
       log = [HttpCall (status_request client0 ''job-1'') 0, Slept 1 500,
              HttpCall (status_request client0 ''job-1'') 1500, Slept 1 2000,
              HttpCall (status_request client0 ''job-1'') 3000]\<rparr>,
        Inl (PyExc TimeoutError [Lit ''Job did not complete within '', Fmt (JInt 2), Lit '' seconds'']))
   \<and> time_time \<lparr>clock = 3500, calls = 3, naps = 2,
       log = [HttpCall (status_request client0 ''job-1'') 0, Slept 1 500,
              HttpCall (status_request client0 ''job-1'') 1500, Slept 1 2000,
              HttpCall (status_request client0 ''job-1'') 3000]\<rparr> - time_time world0 > real_of_int 2
   \<and> get_result_loop (answering (ok_json (JObj [(''status'', JStr ''IN_PROGRESS'')])) 500) client0 ''job-1'' True 2 0
       \<lparr>clock = 3000, calls = 2, naps = 2,
       log = [HttpCall (status_request client0 ''job-1'') 0, Slept 1 500,
              HttpCall (status_request client0 ''job-1'') 1500, Slept 1 2000]\<rparr> =
       (\<lparr>clock = 3500, calls = 3, naps = 2,
       log = [HttpCall (status_request client0 ''job-1'') 0, Slept 1 500,
              HttpCall (status_request client0 ''job-1'') 1500, Slept 1 2000,
              HttpCall (status_request client0 ''job-1'') 3000]\<rparr>,
        Inl (PyExc TimeoutError [Lit ''Job did not complete within '', Fmt (JInt 2), Lit '' seconds'']))
   \<and> get_result_loop (answering (ok_json (JObj [(''status'', JStr ''IN_PROGRESS'')])) 500) client0 ''job-1'' True 2 0 world0 =
     get_result_loop (answering (ok_json (JObj [(''status'', JStr ''IN_PROGRESS'')])) 500) client0 ''job-1'' True 2 0
       \<lparr>clock = 1500, calls = 1, naps = 1,
       log = [HttpCall (status_request client0 ''job-1'') 0, Slept 1 500]\<rparr>"
proof -
  have rp: "\<And>n. reports (server (answering (ok_json (JObj [(''status'', JStr ''IN_PROGRESS'')])) 500) n (status_request client0 ''job-1'')) ''IN_PROGRESS''"
    by (simp add: reports_def answering_simps ok_json_def)
  have p: "pending ''IN_PROGRESS''" by (simp add: pending_def)
  note t0 = get_result_deadline_checked_before_sleep
      [where E = "answering (ok_json (JObj [(''status'', JStr ''IN_PROGRESS'')])) 500"
         and c = "client0"
         and job_id = "''job-1''"
         and wait = "True"
         and max_wait = "2"
         and w = "world0"
         and s = "''IN_PROGRESS''"
         and start_time = "0"]
  note t3 = get_result_deadline_checked_before_sleep
      [where E = "answering (ok_json (JObj [(''status'', JStr ''IN_PROGRESS'')])) 500"
         and c = "client0"
         and job_id = "''job-1''"
         and wait = "True"
         and max_wait = "2"
         and w = "\<lparr>clock = 3000, calls = 2, naps = 2,
       log = [HttpCall (status_request client0 ''job-1'') 0, Slept 1 500,
              HttpCall (status_request client0 ''job-1'') 1500, Slept 1 2000]\<rparr>"
         and s = "''IN_PROGRESS''"
         and start_time = "0"]
  from t0 have a: "\<exists>L. log (fst (get_result (answering (ok_json (JObj [(''status'', JStr ''IN_PROGRESS'')])) 500)
                     client0 ''job-1'' True 2 world0)) =
          log world0 @ HttpCall (status_request client0 ''job-1'') (clock world0) # L
        \<and> polls_in_budget (time_time world0) 2 L"
    by blast
  from t0 pending_run have b: "time_time \<lparr>clock = 3500, calls = 3, naps = 2,
       log = [HttpCall (status_request client0 ''job-1'') 0, Slept 1 500,
              HttpCall (status_request client0 ''job-1'') 1500, Slept 1 2000,
              HttpCall (status_request client0 ''job-1'') 3000]\<rparr> - time_time world0 > real_of_int 2"
    by (metis exc_class_of.simps)
  have c: "get_result_loop (answering (ok_json (JObj [(''status'', JStr ''IN_PROGRESS'')])) 500) client0 ''job-1'' True 2 0
       \<lparr>clock = 3000, calls = 2, naps = 2,
       log = [HttpCall (status_request client0 ''job-1'') 0, Slept 1 500,
              HttpCall (status_request client0 ''job-1'') 1500, Slept 1 2000]\<rparr> =
       (\<lparr>clock = 3500, calls = 3, naps = 2,
       log = [HttpCall (status_request client0 ''job-1'') 0, Slept 1 500,
              HttpCall (status_request client0 ''job-1'') 1500, Slept 1 2000,
              HttpCall (status_request client0 ''job-1'') 3000]\<rparr>,
        Inl (PyExc TimeoutError [Lit ''Job did not complete within '', Fmt (JInt 2), Lit '' seconds'']))"
    using t3 rp p
    by (simp add: time_time_def after_call_def answering_simps numeral_3_eq_3)
  have d: "get_result_loop (answering (ok_json (JObj [(''status'', JStr ''IN_PROGRESS'')])) 500) client0 ''job-1'' True 2 0 world0 =
     get_result_loop (answering (ok_json (JObj [(''status'', JStr ''IN_PROGRESS'')])) 500) client0 ''job-1'' True 2 0
       \<lparr>clock = 1500, calls = 1, naps = 1,
       log = [HttpCall (status_request client0 ''job-1'') 0, Slept 1 500]\<rparr>"
    using t0 rp p
    by (simp add: time_time_def after_call_def time_sleep_def world0_def answering_simps)
  show ?thesis using a b c d pending_run by simp
qed

text \<open>
  C3 as stated fails: with status queries that take half a second and \<open>max_wait = 2\<close>,
  the third query is issued 3 seconds after the start, and the \<^verbatim>\<open>TimeoutError\<close> that
  follows names 2, the limit, not the time that has passed.
\<close>

theorem get_result_over_budget_query_counterexample:
  "get_result (answering (ok_json (JObj [(''status'', JStr ''IN_PROGRESS'')])) 500) client0 ''job-1'' True 2 world0 =
     (\<lparr>clock = 3500, calls = 3, naps = 2,
       log = [HttpCall (status_request client0 ''job-1'') 0, Slept 1 500,
              HttpCall (status_request client0 ''job-1'') 1500, Slept 1 2000,
              HttpCall (status_request client0 ''job-1'') 3000]\<rparr>,
      Inl (PyExc TimeoutError [Lit ''Job did not complete within '', Fmt (JInt 2), Lit '' seconds'']))
   \<and> real 3000 / 1000 - time_time world0 > real_of_int 2
   \<and> HttpCall (status_request client0 ''job-1'') 3000 \<in> set (log (fst
        (get_result (answering (ok_json (JObj [(''status'', JStr ''IN_PROGRESS'')])) 500) client0 ''job-1'' True 2 world0)))"
  using pending_run by (simp add: time_time_def world0_def)

text \<open>
  C4, as the code has it. With \<^verbatim>\<open>wait=True\<close>, a pending observation made when the
  elapsed time is above \<open>max_wait\<close> raises \<^verbatim>\<open>TimeoutError\<close>; the elapsed time is
  read at no other moment. An observation that is not pending (a terminal status) never
  ends in \<^verbatim>\<open>TimeoutError\<close>, whenever it is made. For a whole call: a
  \<^verbatim>\<open>TimeoutError\<close> means that the last answer was pending and came after the deadline,
  and a job that is pending at every query does get the \<^verbatim>\<open>TimeoutError\<close> (the loop
  ends).
\<close>

theorem get_result_timeout_exactly_when_pending_past_deadline:
  "(reports (server E (calls w) (status_request c job_id)) s \<and> pending s
      \<and> time_time (after_call E (status_request c job_id) w) - start_time > real_of_int max_wait
     \<longrightarrow> get_result_loop E c job_id True max_wait start_time w =
           (after_call E (status_request c job_id) w,
            Inl (PyExc TimeoutError
                   [Lit ''Job did not complete within '', Fmt (JInt max_wait), Lit '' seconds''])))
   \<and> (reports (server E (calls w) (status_request c job_id)) s \<and> \<not> pending s
     \<longrightarrow> (\<forall>e. snd (get_result_loop E c job_id wait max_wait start_time w) = Inl e
            \<longrightarrow> exc_class_of e \<noteq> TimeoutError))
   \<and> (get_result E c job_id wait max_wait w = (w', Inl e) \<and> exc_class_of e = TimeoutError
     \<longrightarrow> wait \<and> time_time w' - time_time w > real_of_int max_wait \<and> 0 < calls w'
         \<and> (\<exists>s'. reports (server E (calls w' - 1) (status_request c job_id)) s' \<and> pending s'))
   \<and> ((\<forall>n. \<exists>s'. reports (server E n (status_request c job_id)) s' \<and> pending s')
     \<longrightarrow> (\<exists>w''. get_result E c job_id True max_wait w =
            (w'', Inl (PyExc TimeoutError
                   [Lit ''Job did not complete within '', Fmt (JInt max_wait), Lit '' seconds'']))
          \<and> time_time w'' - time_time w > real_of_int max_wait))"
proof (intro conjI impI)
  assume "reports (server E (calls w) (status_request c job_id)) s \<and> pending s
      \<and> time_time (after_call E (status_request c job_id) w) - start_time > real_of_int max_wait"
  then show "get_result_loop E c job_id True max_wait start_time w =
           (after_call E (status_request c job_id) w,
            Inl (PyExc TimeoutError
                   [Lit ''Job did not complete within '', Fmt (JInt max_wait), Lit '' seconds'']))"
    using loop_pending_wait[of E w c job_id s max_wait start_time] by simp
next
  assume "reports (server E (calls w) (status_request c job_id)) s \<and> \<not> pending s"
  then show "\<forall>e. snd (get_result_loop E c job_id wait max_wait start_time w) = Inl e
            \<longrightarrow> exc_class_of e \<noteq> TimeoutError"
    using loop_not_pending by blast
next
  assume a: "get_result E c job_id wait max_wait w = (w', Inl e) \<and> exc_class_of e = TimeoutError"
  then show "wait" "time_time w' - time_time w > real_of_int max_wait" "0 < calls w'"
    "\<exists>s'. reports (server E (calls w' - 1) (status_request c job_id)) s' \<and> pending s'"
    using loop_timeout_only[of E c job_id wait max_wait "time_time w" w w' e]
    by (simp_all add: get_result_def)
next
  assume "\<forall>n. \<exists>s'. reports (server E n (status_request c job_id)) s' \<and> pending s'"
  then show "\<exists>w''. get_result E c job_id True max_wait w =
            (w'', Inl (PyExc TimeoutError
                   [Lit ''Job did not complete within '', Fmt (JInt max_wait), Lit '' seconds'']))
          \<and> time_time w'' - time_time w > real_of_int max_wait"
    using loop_all_pending[of E c job_id max_wait "time_time w" w] by (simp add: get_result_def)
qed

theorem get_result_timeout_exactly_when_pending_past_deadline_witness:
  "get_result_loop (answering (ok_json (JObj [(''status'', JStr ''IN_PROGRESS'')])) 500) client0 ''job-1'' True 0 0 world0 =
     (after_call (answering (ok_json (JObj [(''status'', JStr ''IN_PROGRESS'')])) 500) (status_request client0 ''job-1'') world0, Inl (PyExc TimeoutError [Lit ''Job did not complete within '', Fmt (JInt 0), Lit '' seconds'']))
   \<and> snd (get_result_loop (answering (ok_json (JObj [(''status'', JStr ''FAILED'')])) 250) client0 ''job-1'' True 2 0 world0) =
       Inl (PyExc Exception [Lit ''Job failed: '', Fmt (JStr ''Unknown error'')])
   \<and> exc_class_of (PyExc Exception [Lit ''Job failed: '', Fmt (JStr ''Unknown error'')]) \<noteq> TimeoutError
   \<and> get_result (answering (ok_json (JObj [(''status'', JStr ''IN_PROGRESS'')])) 500) client0 ''job-1'' True 2 world0 =
       (\<lparr>clock = 3500, calls = 3, naps = 2,
       log = [HttpCall (status_request client0 ''job-1'') 0, Slept 1 500,
              HttpCall (status_request client0 ''job-1'') 1500, Slept 1 2000,
              HttpCall (status_request client0 ''job-1'') 3000]\<rparr>, Inl (PyExc TimeoutError [Lit ''Job did not complete within '', Fmt (JInt 2), Lit '' seconds'']))
   \<and> time_time \<lparr>clock = 3500, calls = 3, naps = 2,
       log = [HttpCall (status_request client0 ''job-1'') 0, Slept 1 500,
              HttpCall (status_request client0 ''job-1'') 1500, Slept 1 2000,
              HttpCall (status_request client0 ''job-1'') 3000]\<rparr> - time_time world0 > real_of_int 2
   \<and> (\<exists>s'. reports (server (answering (ok_json (JObj [(''status'', JStr ''IN_PROGRESS'')])) 500) (calls \<lparr>clock = 3500, calls = 3, naps = 2,
       log = [HttpCall (status_request client0 ''job-1'') 0, Slept 1 500,
              HttpCall (status_request client0 ''job-1'') 1500, Slept 1 2000,
              HttpCall (status_request client0 ''job-1'') 3000]\<rparr> - 1) (status_request client0 ''job-1'')) s' \<and> pending s')
   \<and> (\<exists>w''. get_result (answering (ok_json (JObj [(''status'', JStr ''IN_PROGRESS'')])) 500) client0 ''job-1'' True 2 world0 = (w'', Inl (PyExc TimeoutError [Lit ''Job did not complete within '', Fmt (JInt 2), Lit '' seconds'']))
         \<and> time_time w'' - time_time world0 > real_of_int 2)"
proof -
  have rp: "\<And>n. reports (server (answering (ok_json (JObj [(''status'', JStr ''IN_PROGRESS'')])) 500) n (status_request client0 ''job-1'')) ''IN_PROGRESS''"
    by (simp add: reports_def answering_simps ok_json_def)
  have p: "pending ''IN_PROGRESS''" "\<not> pending ''FAILED''"
    by (simp_all add: pending_def)
  have rf: "reports (server (answering (ok_json (JObj [(''status'', JStr ''FAILED'')])) 250) (calls world0) (status_request client0 ''job-1'')) ''FAILED''"
    by (simp add: reports_def answering_simps ok_json_def)
  have lf: "snd (get_result_loop (answering (ok_json (JObj [(''status'', JStr ''FAILED'')])) 250) client0 ''job-1'' True 2 0 world0) =
       Inl (PyExc Exception [Lit ''Job failed: '', Fmt (JStr ''Unknown error'')])"
    by (simp add: loop_failed[where r = "\<lparr>status_code = 200, resp_text = [], json_body = Some (JObj [(''status'', JStr ''FAILED'')])\<rparr>" and kvs = "[(''status'', JStr ''FAILED'')]"]
          answering_simps ok_json_def)
  have a: "get_result_loop (answering (ok_json (JObj [(''status'', JStr ''IN_PROGRESS'')])) 500) client0 ''job-1'' True 0 0 world0 =
     (after_call (answering (ok_json (JObj [(''status'', JStr ''IN_PROGRESS'')])) 500) (status_request client0 ''job-1'') world0, Inl (PyExc TimeoutError [Lit ''Job did not complete within '', Fmt (JInt 0), Lit '' seconds'']))"
    using get_result_timeout_exactly_when_pending_past_deadline
      [where E = "answering (ok_json (JObj [(''status'', JStr ''IN_PROGRESS'')])) 500"
         and w = "world0"
         and c = "client0"
         and job_id = "''job-1''"
         and s = "''IN_PROGRESS''"
         and start_time = "0"
         and max_wait = "0"
         and wait = "True"
         and e = "PyExc TimeoutError [Lit ''Job did not complete within '', Fmt (JInt 2), Lit '' seconds'']"
         and w' = "\<lparr>clock = 3500, calls = 3, naps = 2,
       log = [HttpCall (status_request client0 ''job-1'') 0, Slept 1 500,
              HttpCall (status_request client0 ''job-1'') 1500, Slept 1 2000,
              HttpCall (status_request client0 ''job-1'') 3000]\<rparr>"] rp p
    by (simp add: time_time_def after_call_def world0_def answering_simps)
  have b: "exc_class_of (PyExc Exception [Lit ''Job failed: '', Fmt (JStr ''Unknown error'')]) \<noteq> TimeoutError"
    using get_result_timeout_exactly_when_pending_past_deadline
      [where E = "answering (ok_json (JObj [(''status'', JStr ''FAILED'')])) 250"
         and w = "world0"
         and c = "client0"
         and job_id = "''job-1''"
         and s = "''FAILED''"
         and start_time = "0"
         and max_wait = "2"
         and wait = "True"
         and e = "PyExc TimeoutError [Lit ''Job did not complete within '', Fmt (JInt 2), Lit '' seconds'']"
         and w' = "\<lparr>clock = 3500, calls = 3, naps = 2,
       log = [HttpCall (status_request client0 ''job-1'') 0, Slept 1 500,
              HttpCall (status_request client0 ''job-1'') 1500, Slept 1 2000,
              HttpCall (status_request client0 ''job-1'') 3000]\<rparr>"] rf p lf
    by simp
  have c: "time_time \<lparr>clock = 3500, calls = 3, naps = 2,
       log = [HttpCall (status_request client0 ''job-1'') 0, Slept 1 500,
              HttpCall (status_request client0 ''job-1'') 1500, Slept 1 2000,
              HttpCall (status_request client0 ''job-1'') 3000]\<rparr> - time_time world0 > real_of_int 2
     \<and> (\<exists>s'. reports (server (answering (ok_json (JObj [(''status'', JStr ''IN_PROGRESS'')])) 500) (calls \<lparr>clock = 3500, calls = 3, naps = 2,
       log = [HttpCall (status_request client0 ''job-1'') 0, Slept 1 500,
              HttpCall (status_request client0 ''job-1'') 1500, Slept 1 2000,
              HttpCall (status_request client0 ''job-1'') 3000]\<rparr> - 1) (status_request client0 ''job-1'')) s' \<and> pending s')"
    using get_result_timeout_exactly_when_pending_past_deadline
      [where E = "answering (ok_json (JObj [(''status'', JStr ''IN_PROGRESS'')])) 500"
         and w = "world0"
         and c = "client0"
         and job_id = "''job-1''"
         and s = "''IN_PROGRESS''"
         and start_time = "0"
         and max_wait = "2"
         and wait = "True"
         and e = "PyExc TimeoutError [Lit ''Job did not complete within '', Fmt (JInt 2), Lit '' seconds'']"
         and w' = "\<lparr>clock = 3500, calls = 3, naps = 2,
       log = [HttpCall (status_request client0 ''job-1'') 0, Slept 1 500,
              HttpCall (status_request client0 ''job-1'') 1500, Slept 1 2000,
              HttpCall (status_request client0 ''job-1'') 3000]\<rparr>"] pending_run
    by simp
  have d: "\<exists>w''. get_result (answering (ok_json (JObj [(''status'', JStr ''IN_PROGRESS'')])) 500) client0 ''job-1'' True 2 world0 = (w'', Inl (PyExc TimeoutError [Lit ''Job did not complete within '', Fmt (JInt 2), Lit '' seconds'']))
         \<and> time_time w'' - time_time world0 > real_of_int 2"
    using get_result_timeout_exactly_when_pending_past_deadline
      [where E = "answering (ok_json (JObj [(''status'', JStr ''IN_PROGRESS'')])) 500"
         and w = "world0"
         and c = "client0"
         and job_id = "''job-1''"
         and s = "''IN_PROGRESS''"
         and start_time = "0"
         and max_wait = "2"
         and wait = "True"
         and e = "PyExc TimeoutError [Lit ''Job did not complete within '', Fmt (JInt 2), Lit '' seconds'']"
         and w' = "\<lparr>clock = 3500, calls = 3, naps = 2,
       log = [HttpCall (status_request client0 ''job-1'') 0, Slept 1 500,
              HttpCall (status_request client0 ''job-1'') 1500, Slept 1 2000,
              HttpCall (status_request client0 ''job-1'') 3000]\<rparr>"] rp p
    by blast
  show ?thesis using a lf b c d pending_run by simp
qed

text \<open>
  C4 as stated fails in its first half: with \<open>max_wait = 2\<close> and status queries that
  take 0.4 seconds, the job is still pending at 0.4 and at 1.8 seconds; the deadline
  passes during the sleep that follows, the third query goes out at 2.8 seconds, is
  answered \<^verbatim>\<open>COMPLETED\<close>, and the image is returned with no \<^verbatim>\<open>TimeoutError\<close>.
\<close>

theorem deadline_passed_during_sleep_counterexample:
  "get_result
     (scripted [ok_json (JObj [(''status'', JStr ''IN_PROGRESS'')]),
                ok_json (JObj [(''status'', JStr ''IN_PROGRESS'')])]
        (ok_json (JObj [(''status'', JStr ''COMPLETED''),
                        (''output'', JObj [(''image'', JStr ''iVBORw=='')])])) 400)
     client0 ''job-1'' True 2 world0 =
     (\<lparr>clock = 3200, calls = 3, naps = 2,
       log = [HttpCall (status_request client0 ''job-1'') 0, Slept 1 400,
              HttpCall (status_request client0 ''job-1'') 1400, Slept 1 1800,
              HttpCall (status_request client0 ''job-1'') 2800]\<rparr>,
      Inr (Some (Image [137, 80, 78, 71])))
   \<and> reports (server
        (scripted [ok_json (JObj [(''status'', JStr ''IN_PROGRESS'')]),
                   ok_json (JObj [(''status'', JStr ''IN_PROGRESS'')])]
           (ok_json (JObj [(''status'', JStr ''COMPLETED''),
                           (''output'', JObj [(''image'', JStr ''iVBORw=='')])])) 400)
        1 (status_request client0 ''job-1'')) ''IN_PROGRESS''
   \<and> pending ''IN_PROGRESS''
   \<and> real 2800 / 1000 - time_time world0 > real_of_int 2"
proof -
  let ?done = "JObj [(''status'', JStr ''COMPLETED''),
                     (''output'', JObj [(''image'', JStr ''iVBORw=='')])]"
  let ?E = "scripted [ok_json (JObj [(''status'', JStr ''IN_PROGRESS'')]),
                      ok_json (JObj [(''status'', JStr ''IN_PROGRESS'')])] (ok_json ?done) 400"
  let ?rq = "status_request client0 ''job-1''"
  let ?w1 = "\<lparr>clock = 1400, calls = 1, naps = 1, log = [HttpCall ?rq 0, Slept 1 400]\<rparr>"
  let ?w2 = "\<lparr>clock = 2800, calls = 2, naps = 2,
       log = [HttpCall ?rq 0, Slept 1 400, HttpCall ?rq 1400, Slept 1 1800]\<rparr>"
  have r0: "reports (server ?E (calls world0) ?rq) ''IN_PROGRESS''"
    by (simp add: reports_def scripted_simps ok_json_def world0_def)
  have r1: "reports (server ?E (calls ?w1) ?rq) ''IN_PROGRESS''"
    by (simp add: reports_def scripted_simps ok_json_def)
  have p: "pending ''IN_PROGRESS''" by (simp add: pending_def)
  have s0: "get_result_loop ?E client0 ''job-1'' True 2 0 world0 =
            get_result_loop ?E client0 ''job-1'' True 2 0 ?w1"
    using loop_pending_wait[OF r0 p, of 2 0]
    by (simp add: time_time_def after_call_def time_sleep_def world0_def scripted_simps)
  have s1: "get_result_loop ?E client0 ''job-1'' True 2 0 ?w1 =
            get_result_loop ?E client0 ''job-1'' True 2 0 ?w2"
    using loop_pending_wait[OF r1 p, of 2 0]
    by (simp add: time_time_def after_call_def time_sleep_def scripted_simps numeral_2_eq_2)
  have s2: "get_result_loop ?E client0 ''job-1'' True 2 0 ?w2 =
               (after_call ?E ?rq ?w2, Inr (Some (Image [137, 80, 78, 71])))"
    by (rule loop_completed_image
          [where r = "\<lparr>status_code = 200, resp_text = [], json_body = Some ?done\<rparr>"
             and kvs = "[(''status'', JStr ''COMPLETED''),
                     (''output'', JObj [(''image'', JStr ''iVBORw=='')])]"
             and okvs = "[(''image'', JStr ''iVBORw=='')]" and img = "JStr ''iVBORw==''"])
       (simp_all add: scripted_simps ok_json_def png_magic_decoded del: b64decode.simps)
  have run: "get_result ?E client0 ''job-1'' True 2 world0 =
     (\<lparr>clock = 3200, calls = 3, naps = 2,
       log = [HttpCall ?rq 0, Slept 1 400, HttpCall ?rq 1400, Slept 1 1800, HttpCall ?rq 2800]\<rparr>,
      Inr (Some (Image [137, 80, 78, 71])))"
    using s0 s1 s2
    by (simp add: get_result_def time_time_def world0_def after_call_def scripted_simps
          numeral_3_eq_3)
  have r1': "reports (server ?E 1 ?rq) ''IN_PROGRESS''"
    using r1 by simp
  show ?thesis using run r1' p by (simp add: time_time_def world0_def)
qed

text \<open>
  C1, as the code has it. Neither submission looks at the request before sending it:
  for every prompt, height and width, \<^verbatim>\<open>generate_sync\<close> and \<^verbatim>\<open>generate_async\<close> each
  make exactly one HTTP call, a POST that carries the request as given.
\<close>

theorem submissions_always_call_the_service:
  "http_calls (log (fst (generate_sync E c prompt height width steps seed timeout w))) =
     http_calls (log w) @ [sync_request c prompt height width steps seed timeout]
   \<and> http_calls (log (fst (generate_async E c prompt height width steps seed w))) =
     http_calls (log w) @ [async_request c prompt height width steps seed]
   \<and> req_json (sync_request c prompt height width steps seed timeout) =
       Some (payload prompt height width steps seed)
   \<and> req_json (async_request c prompt height width steps seed) =
       Some (payload prompt height width steps seed)"
  by (simp add: generate_sync_world generate_async_world after_call_def print_line_def
        http_calls_append sync_request_def async_request_def)

text \<open>
  C1 as stated fails: an empty prompt with height 1023 is posted by both submissions;
  what comes back is whatever the service answers.
\<close>

theorem invalid_request_is_sent_counterexample:
  "\<not> valid_request [] 1023 1024
   \<and> http_calls (log (fst (generate_sync
        (answering (ok_json (JObj [(''output'', JObj [(''error'', JStr ''No prompt provided'')])])) 250)
        client0 [] 1023 1024 9 None 120 world0))) = [sync_request client0 [] 1023 1024 9 None 120]
   \<and> snd (generate_sync
        (answering (ok_json (JObj [(''output'', JObj [(''error'', JStr ''No prompt provided'')])])) 250)
        client0 [] 1023 1024 9 None 120 world0) =
       Inl (PyExc Exception [Lit ''Generation failed: '', Fmt (JStr ''No prompt provided'')])
   \<and> http_calls (log (fst (generate_async
        (answering (ok_json (JObj [(''id'', JStr ''job-1'')])) 250)
        client0 [] 1023 1024 9 None world0))) = [async_request client0 [] 1023 1024 9 None]
   \<and> snd (generate_async
        (answering (ok_json (JObj [(''id'', JStr ''job-1'')])) 250)
        client0 [] 1023 1024 9 None world0) = Inr (JStr ''job-1'')"
  by (simp add: valid_request_def generate_sync_world generate_async_world after_call_def
        print_line_def world0_def generate_sync_answer generate_async_answer
        answering_simps ok_json_def)

text \<open>
  C10. When the POST of \<^verbatim>\<open>generate_async\<close> is answered with status 200 and a JSON
  object, the handle returned is \<^verbatim>\<open>result.get("id")\<close> as it is: \<^verbatim>\<open>None\<close> when the
  object has no \<^verbatim>\<open>id\<close>, and any value found there otherwise (an empty string or a
  number too), with no error.
\<close>

theorem generate_async_returns_whatever_id_is:
  assumes "server E (calls w) (async_request c prompt height width steps seed) = Responded r"
      and "status_code r = 200" and "json_body r = Some (JObj kvs)"
  shows "snd (generate_async E c prompt height width steps seed w) =
           Inr (case map_of kvs ''id'' of None \<Rightarrow> JNull | Some v \<Rightarrow> v)
         \<and> (map_of kvs ''id'' = None \<longrightarrow>
              snd (generate_async E c prompt height width steps seed w) = Inr JNull)"
  using assms by (simp add: generate_async_answer)

theorem generate_async_returns_whatever_id_is_witness:
  "snd (generate_async (answering (ok_json (JObj [])) 250) client0 ''sunset'' 1024 1024 9 (Some 42) world0)
     = Inr JNull
   \<and> snd (generate_async (answering (ok_json (JObj [(''id'', JStr [])])) 250) client0 ''sunset'' 1024 1024 9 (Some 42) world0)
     = Inr (JStr [])
   \<and> snd (generate_async (answering (ok_json (JObj [(''id'', JInt 7)])) 250) client0 ''sunset'' 1024 1024 9 (Some 42) world0)
     = Inr (JInt 7)"
  using generate_async_returns_whatever_id_is
          [of "answering (ok_json (JObj [])) 250" world0 client0 "''sunset''" 1024 1024 9 "Some 42"
              "\<lparr>status_code = 200, resp_text = [], json_body = Some (JObj [])\<rparr>" "[]"]
        generate_async_returns_whatever_id_is
          [of "answering (ok_json (JObj [(''id'', JStr [])])) 250" world0 client0 "''sunset''" 1024 1024 9 "Some 42"
              "\<lparr>status_code = 200, resp_text = [], json_body = Some (JObj [(''id'', JStr [])])\<rparr>" "[(''id'', JStr [])]"]
        generate_async_returns_whatever_id_is
          [of "answering (ok_json (JObj [(''id'', JInt 7)])) 250" world0 client0 "''sunset''" 1024 1024 9 "Some 42"
              "\<lparr>status_code = 200, resp_text = [], json_body = Some (JObj [(''id'', JInt 7)])\<rparr>" "[(''id'', JInt 7)]"]
  by (simp add: answering_simps ok_json_def)

text \<open>
  C8. \<^verbatim>\<open>health_check\<close> never raises: it returns a boolean for every outcome of the
  probe, \<^verbatim>\<open>False\<close> when the call raises (connection refused, timeout) and when the
  response is not a 2xx.
\<close>

theorem health_check_never_raises:
  "snd (health_check E c w) =
     Inr (case server E (calls w) (health_request c) of
            Raised f \<Rightarrow> False
          | Responded r \<Rightarrow> status_code r = 200)
   \<and> (\<exists>b. snd (health_check E c w) = Inr b)
   \<and> (server E (calls w) (health_request c) = Raised f \<longrightarrow> snd (health_check E c w) = Inr False)
   \<and> (server E (calls w) (health_request c) = Responded r
        \<and> \<not> (200 \<le> status_code r \<and> status_code r < 300)
      \<longrightarrow> snd (health_check E c w) = Inr False)"
  by (auto simp add: health_check_answer)

theorem health_check_never_raises_witness:
  "snd (health_check (answering (Raised ConnectionRefused) 3) client0 world0) = Inr False
   \<and> snd (health_check (answering (Raised TimedOut) 5000) client0 world0) = Inr False
   \<and> snd (health_check (answering (Responded \<lparr>status_code = 503, resp_text = ''Service Unavailable'',
                                                json_body = None\<rparr>) 40) client0 world0) = Inr False"
  using health_check_never_raises
          [of "answering (Raised ConnectionRefused) 3" client0 world0 ConnectionRefused]
        health_check_never_raises
          [of "answering (Raised TimedOut) 5000" client0 world0 TimedOut]
        health_check_never_raises
          [of "answering (Responded \<lparr>status_code = 503, resp_text = ''Service Unavailable'',
                                     json_body = None\<rparr>) 40" client0 world0 _
              "\<lparr>status_code = 503, resp_text = ''Service Unavailable'', json_body = None\<rparr>"]
  by (simp add: answering_simps)

text \<open>
  C9. Decoding is the exact inverse of encoding: for every byte sequence, the string the
  handler puts in the \<^verbatim>\<open>image\<close> field (\<^verbatim>\<open>base64.b64encode(...).decode()\<close>) is
  decoded by the client's \<^verbatim>\<open>base64.b64decode\<close> to the same bytes, without error.
\<close>

theorem b64decode_b64encode: "b64decode (JStr (b64encode x)) = Inr x"
proof -
  have "\<not> list_ex (\<lambda>c. 128 \<le> (of_char c :: nat)) (b64encode x)"
    using b64encode_ascii[of x] by (auto simp: list_ex_iff)
  then show ?thesis using a2b_encode[of x "[]"] by simp
qed

text \<open>
  C2, as the code has it. The client raises one generic \<^verbatim>\<open>Exception\<close> for a response
  that is not a 200 (from \<^verbatim>\<open>generate_sync\<close>, \<^verbatim>\<open>generate_async\<close> and the status
  query), for an error reported in the body (at the top level or under \<^verbatim>\<open>output\<close> in
  \<^verbatim>\<open>generate_sync\<close>, under \<^verbatim>\<open>output\<close> of a completed job in \<^verbatim>\<open>get_result\<close>), for
  a missing image in \<^verbatim>\<open>generate_sync\<close>, for a \<^verbatim>\<open>FAILED\<close> job and for an unknown
  status; these differ by their message only. Two failures keep a class of their own:
  the poll deadline, the builtin \<^verbatim>\<open>TimeoutError\<close>, and an HTTP call that itself raises
  (connection refused, timeout), which the client does not catch, so that the exception
  of \<^verbatim>\<open>requests\<close> reaches the caller as it is.
\<close>

theorem client_failures_share_one_class:
  "(server E (calls w) (sync_request c prompt height width steps seed timeout) = Responded r
      \<and> status_code r \<noteq> 200
     \<longrightarrow> snd (generate_sync E c prompt height width steps seed timeout w) =
           Inl (PyExc Exception
                  [Lit ''API request failed: '', Fmt (JInt (status_code r)),
                   Lit '' - '', Fmt (JStr (resp_text r))]))
   \<and> (server E (calls w) (async_request c prompt height width steps seed) = Responded r
      \<and> status_code r \<noteq> 200
     \<longrightarrow> snd (generate_async E c prompt height width steps seed w) =
           Inl (PyExc Exception
                  [Lit ''API request failed: '', Fmt (JInt (status_code r)),
                   Lit '' - '', Fmt (JStr (resp_text r))]))
   \<and> (server E (calls w) (status_request c job_id) = Responded r
      \<and> status_code r \<noteq> 200
     \<longrightarrow> snd (get_result_loop E c job_id wait max_wait start_time w) =
           Inl (PyExc Exception
                  [Lit ''Status check failed: '', Fmt (JInt (status_code r)),
                   Lit '' - '', Fmt (JStr (resp_text r))]))
   \<and> (server E (calls w) (sync_request c prompt height width steps seed timeout) = Responded r
      \<and> status_code r = 200
      \<and> json_body r = Some (JObj kvs)
      \<and> map_of kvs ''error'' = Some v
     \<longrightarrow> snd (generate_sync E c prompt height width steps seed timeout w) =
           Inl (PyExc Exception
                  [Lit ''Generation failed: '', Fmt v]))
   \<and> (server E (calls w) (sync_request c prompt height width steps seed timeout) = Responded r
      \<and> status_code r = 200
      \<and> json_body r = Some (JObj kvs)
      \<and> map_of kvs ''error'' = None
      \<and> map_of kvs ''output'' = Some (JObj okvs)
      \<and> map_of okvs ''error'' = Some v
     \<longrightarrow> snd (generate_sync E c prompt height width steps seed timeout w) =
           Inl (PyExc Exception
                  [Lit ''Generation failed: '', Fmt v]))
   \<and> (server E (calls w) (sync_request c prompt height width steps seed timeout) = Responded r
      \<and> status_code r = 200
      \<and> json_body r = Some (JObj kvs)
      \<and> map_of kvs ''error'' = None
      \<and> map_of kvs ''output'' = Some (JObj okvs)
      \<and> map_of okvs ''error'' = None
      \<and> map_of okvs ''image'' = None
     \<longrightarrow> snd (generate_sync E c prompt height width steps seed timeout w) =
           Inl (PyExc Exception
                  [Lit ''No image in response: '', Fmt (JObj kvs)]))
   \<and> (server E (calls w) (status_request c job_id) = Responded r
      \<and> status_code r = 200
      \<and> json_body r = Some (JObj kvs)
      \<and> map_of kvs ''status'' = Some (JStr ''COMPLETED'')
      \<and> map_of kvs ''output'' = Some (JObj okvs)
      \<and> map_of okvs ''error'' = Some v
     \<longrightarrow> snd (get_result_loop E c job_id wait max_wait start_time w) =
           Inl (PyExc Exception
                  [Lit ''Generation failed: '', Fmt v]))
   \<and> (server E (calls w) (status_request c job_id) = Responded r
      \<and> status_code r = 200
      \<and> json_body r = Some (JObj kvs)
      \<and> map_of kvs ''status'' = Some (JStr ''FAILED'')
     \<longrightarrow> snd (get_result_loop E c job_id wait max_wait start_time w) =
           Inl (PyExc Exception
                  [Lit ''Job failed: '',
                   Fmt (case map_of kvs ''error'' of None \<Rightarrow> JStr ''Unknown error'' | Some x \<Rightarrow> x)]))
   \<and> (reports (server E (calls w) (status_request c job_id)) s
      \<and> \<not> known_status s
     \<longrightarrow> snd (get_result_loop E c job_id wait max_wait start_time w) =
           Inl (PyExc Exception
                  [Lit ''Unknown job status: '', Fmt (JStr s)]))
   \<and> (reports (server E (calls w) (status_request c job_id)) s
      \<and> pending s
      \<and> time_time (after_call E (status_request c job_id) w) - start_time > real_of_int max_wait
     \<longrightarrow> snd (get_result_loop E c job_id True max_wait start_time w) =
           Inl (PyExc TimeoutError
                  [Lit ''Job did not complete within '', Fmt (JInt max_wait), Lit '' seconds'']))
   \<and> (server E (calls w) (sync_request c prompt height width steps seed timeout) = Raised f
     \<longrightarrow> snd (generate_sync E c prompt height width steps seed timeout w) = Inl (requests_exc f))
   \<and> (server E (calls w) (async_request c prompt height width steps seed) = Raised f
     \<longrightarrow> snd (generate_async E c prompt height width steps seed w) = Inl (requests_exc f))
   \<and> (server E (calls w) (status_request c job_id) = Raised f
     \<longrightarrow> snd (get_result_loop E c job_id wait max_wait start_time w) = Inl (requests_exc f))
   \<and> (exc_class_of (requests_exc f) = RequestsConnectionError
      \<or> exc_class_of (requests_exc f) = RequestsTimeout)"
proof (intro conjI impI; (elim conjE)?)
  assume "server E (calls w) (sync_request c prompt height width steps seed timeout) = Responded r"
    and "status_code r \<noteq> 200"
  then show "snd (generate_sync E c prompt height width steps seed timeout w) =
           Inl (PyExc Exception
                  [Lit ''API request failed: '', Fmt (JInt (status_code r)),
                   Lit '' - '', Fmt (JStr (resp_text r))])"
    by (simp add: generate_sync_answer)
next
  assume "server E (calls w) (async_request c prompt height width steps seed) = Responded r"
    and "status_code r \<noteq> 200"
  then show "snd (generate_async E c prompt height width steps seed w) =
           Inl (PyExc Exception
                  [Lit ''API request failed: '', Fmt (JInt (status_code r)),
                   Lit '' - '', Fmt (JStr (resp_text r))])"
    by (simp add: generate_async_answer)
next
  assume "server E (calls w) (status_request c job_id) = Responded r"
    and "status_code r \<noteq> 200"
  then show "snd (get_result_loop E c job_id wait max_wait start_time w) =
           Inl (PyExc Exception
                  [Lit ''Status check failed: '', Fmt (JInt (status_code r)),
                   Lit '' - '', Fmt (JStr (resp_text r))])"
    by (simp add: loop_status_check_failed)
next
  assume "server E (calls w) (sync_request c prompt height width steps seed timeout) = Responded r"
    and "status_code r = 200"
    and "json_body r = Some (JObj kvs)"
    and "map_of kvs ''error'' = Some v"
  then show "snd (generate_sync E c prompt height width steps seed timeout w) =
           Inl (PyExc Exception
                  [Lit ''Generation failed: '', Fmt v])"
    by (simp add: generate_sync_answer)
next
  assume "server E (calls w) (sync_request c prompt height width steps seed timeout) = Responded r"
    and "status_code r = 200"
    and "json_body r = Some (JObj kvs)"
    and "map_of kvs ''error'' = None"
    and "map_of kvs ''output'' = Some (JObj okvs)"
    and "map_of okvs ''error'' = Some v"
  then show "snd (generate_sync E c prompt height width steps seed timeout w) =
           Inl (PyExc Exception
                  [Lit ''Generation failed: '', Fmt v])"
    by (simp add: generate_sync_answer)
next
  assume "server E (calls w) (sync_request c prompt height width steps seed timeout) = Responded r"
    and "status_code r = 200"
    and "json_body r = Some (JObj kvs)"
    and "map_of kvs ''error'' = None"
    and "map_of kvs ''output'' = Some (JObj okvs)"
    and "map_of okvs ''error'' = None"
    and "map_of okvs ''image'' = None"
  then show "snd (generate_sync E c prompt height width steps seed timeout w) =
           Inl (PyExc Exception
                  [Lit ''No image in response: '', Fmt (JObj kvs)])"
    by (simp add: generate_sync_answer)
next
  assume "server E (calls w) (status_request c job_id) = Responded r"
    and "status_code r = 200"
    and "json_body r = Some (JObj kvs)"
    and "map_of kvs ''status'' = Some (JStr ''COMPLETED'')"
    and "map_of kvs ''output'' = Some (JObj okvs)"
    and "map_of okvs ''error'' = Some v"
  then show "snd (get_result_loop E c job_id wait max_wait start_time w) =
           Inl (PyExc Exception
                  [Lit ''Generation failed: '', Fmt v])"
    by (simp add: loop_completed_output_error)
next
  assume "server E (calls w) (status_request c job_id) = Responded r"
    and "status_code r = 200"
    and "json_body r = Some (JObj kvs)"
    and "map_of kvs ''status'' = Some (JStr ''FAILED'')"
  then show "snd (get_result_loop E c job_id wait max_wait start_time w) =
           Inl (PyExc Exception
                  [Lit ''Job failed: '',
                   Fmt (case map_of kvs ''error'' of None \<Rightarrow> JStr ''Unknown error'' | Some x \<Rightarrow> x)])"
    by (simp add: loop_failed)
next
  assume "reports (server E (calls w) (status_request c job_id)) s"
    and "\<not> known_status s"
  then show "snd (get_result_loop E c job_id wait max_wait start_time w) =
           Inl (PyExc Exception
                  [Lit ''Unknown job status: '', Fmt (JStr s)])"
    by (simp add: loop_unknown)
next
  assume "reports (server E (calls w) (status_request c job_id)) s"
    and "pending s"
    and "time_time (after_call E (status_request c job_id) w) - start_time > real_of_int max_wait"
  then show "snd (get_result_loop E c job_id True max_wait start_time w) =
           Inl (PyExc TimeoutError
                  [Lit ''Job did not complete within '', Fmt (JInt max_wait), Lit '' seconds''])"
    by (simp add: loop_pending_wait)
next
  assume "server E (calls w) (sync_request c prompt height width steps seed timeout) = Raised f"
  then show "snd (generate_sync E c prompt height width steps seed timeout w) = Inl (requests_exc f)"
    by (simp add: generate_sync_raised)
next
  assume "server E (calls w) (async_request c prompt height width steps seed) = Raised f"
  then show "snd (generate_async E c prompt height width steps seed w) = Inl (requests_exc f)"
    by (simp add: generate_async_raised)
next
  assume "server E (calls w) (status_request c job_id) = Raised f"
  then show "snd (get_result_loop E c job_id wait max_wait start_time w) = Inl (requests_exc f)"
    by (simp add: loop_call_raised)
next
  show "exc_class_of (requests_exc f) = RequestsConnectionError
      \<or> exc_class_of (requests_exc f) = RequestsTimeout"
    by (rule requests_exc_own_class)
qed

theorem client_failures_share_one_class_witness:
  "snd (generate_sync (answering (Responded \<lparr>status_code = 500, resp_text = ''Internal Server Error'', json_body = None\<rparr>) 250) client0 ''sunset'' 1024 1024 9 None 120 world0) =
     Inl (PyExc Exception [Lit ''API request failed: '', Fmt (JInt 500), Lit '' - '', Fmt (JStr ''Internal Server Error'')])
   \<and> snd (generate_async (answering (Responded \<lparr>status_code = 500, resp_text = ''Internal Server Error'', json_body = None\<rparr>) 250) client0 ''sunset'' 1024 1024 9 None world0) =
     Inl (PyExc Exception [Lit ''API request failed: '', Fmt (JInt 500), Lit '' - '', Fmt (JStr ''Internal Server Error'')])
   \<and> snd (get_result_loop (answering (Responded \<lparr>status_code = 500, resp_text = ''Internal Server Error'', json_body = None\<rparr>) 250) client0 ''job-1'' True 120 0 world0) =
     Inl (PyExc Exception
            [Lit ''Status check failed: '', Fmt (JInt 500), Lit '' - '',
             Fmt (JStr ''Internal Server Error'')])
   \<and> snd (generate_sync (answering (ok_json (JObj [(''error'', JStr ''out of memory'')])) 250) client0 ''sunset'' 1024 1024 9 None 120 world0) =
     Inl (PyExc Exception [Lit ''Generation failed: '', Fmt (JStr ''out of memory'')])
   \<and> snd (generate_sync (answering (ok_json (JObj [(''output'', JObj [(''error'', JStr ''No prompt provided'')])])) 250) client0 ''sunset'' 1024 1024 9 None 120 world0) =
     Inl (PyExc Exception [Lit ''Generation failed: '', Fmt (JStr ''No prompt provided'')])
   \<and> snd (generate_sync (answering (ok_json (JObj [(''output'', JObj [(''format'', JStr ''base64'')])])) 250) client0 ''sunset'' 1024 1024 9 None 120 world0) =
     Inl (PyExc Exception [Lit ''No image in response: '', Fmt (JObj [(''output'', JObj [(''format'', JStr ''base64'')])])])
   \<and> snd (get_result_loop (answering (ok_json (JObj [(''status'', JStr ''COMPLETED''), (''output'', JObj [(''error'', JStr ''No prompt provided'')])])) 250) client0 ''job-1'' True 120 0 world0) =
     Inl (PyExc Exception [Lit ''Generation failed: '', Fmt (JStr ''No prompt provided'')])
   \<and> snd (get_result_loop (answering (ok_json (JObj [(''status'', JStr ''FAILED'')])) 250) client0 ''job-1'' True 120 0 world0) =
     Inl (PyExc Exception [Lit ''Job failed: '', Fmt (JStr ''Unknown error'')])
   \<and> snd (get_result_loop (answering (ok_json (JObj [(''status'', JStr ''CANCELLED'')])) 250) client0 ''job-1'' True 120 0 world0) =
     Inl (PyExc Exception [Lit ''Unknown job status: '', Fmt (JStr ''CANCELLED'')])
   \<and> snd (get_result_loop (answering (ok_json (JObj [(''status'', JStr ''IN_PROGRESS'')])) 500) client0 ''job-1'' True 0 0 world0) =
     Inl (PyExc TimeoutError [Lit ''Job did not complete within '', Fmt (JInt 0), Lit '' seconds''])
   \<and> snd (generate_sync (answering (Raised ConnectionRefused) 3) client0 ''sunset'' 1024 1024 9 None 120 world0) =
     Inl (PyExc RequestsConnectionError [])
   \<and> snd (generate_async (answering (Raised ConnectionRefused) 3) client0 ''sunset'' 1024 1024 9 None world0) =
     Inl (PyExc RequestsConnectionError [])
   \<and> snd (get_result_loop (answering (Raised ConnectionRefused) 3) client0 ''job-1'' True 120 0 world0) =
     Inl (PyExc RequestsConnectionError [])
   \<and> snd (generate_sync (answering (Raised TimedOut) 5000) client0 ''sunset'' 1024 1024 9 None 120 world0) =
     Inl (PyExc RequestsTimeout [])"
  using
    client_failures_share_one_class
      [where E = "answering (Responded \<lparr>status_code = 500, resp_text = ''Internal Server Error'', json_body = None\<rparr>) 250"
         and w = "world0"
         and c = "client0"
         and prompt = "''sunset''"
         and height = "1024"
         and width = "1024"
         and steps = "9"
         and seed = "None"
         and timeout = "120"
         and r = "\<lparr>status_code = 500, resp_text = ''Internal Server Error'', json_body = None\<rparr>"
         and job_id = "''job-1''"
         and wait = "True"
         and max_wait = "120"
         and start_time = "0"
         and kvs = "[]"
         and okvs = "[]"
         and v = "JNull"
         and s = "''X''"
         and f = "ConnectionRefused"]
    client_failures_share_one_class
      [where E = "answering (ok_json (JObj [(''error'', JStr ''out of memory'')])) 250"
         and w = "world0"
         and c = "client0"
         and prompt = "''sunset''"
         and height = "1024"
         and width = "1024"
         and steps = "9"
         and seed = "None"
         and timeout = "120"
         and r = "\<lparr>status_code = 200, resp_text = [], json_body = Some (JObj [(''error'', JStr ''out of memory'')])\<rparr>"
         and job_id = "''job-1''"
         and wait = "True"
         and max_wait = "120"
         and start_time = "0"
         and kvs = "[(''error'', JStr ''out of memory'')]"
         and okvs = "[]"
         and v = "JStr ''out of memory''"
         and s = "''X''"
         and f = "ConnectionRefused"]
    client_failures_share_one_class
      [where E = "answering (ok_json (JObj [(''output'', JObj [(''error'', JStr ''No prompt provided'')])])) 250"
         and w = "world0"
         and c = "client0"
         and prompt = "''sunset''"
         and height = "1024"
         and width = "1024"
         and steps = "9"
         and seed = "None"
         and timeout = "120"
         and r = "\<lparr>status_code = 200, resp_text = [], json_body = Some (JObj [(''output'', JObj [(''error'', JStr ''No prompt provided'')])])\<rparr>"
         and job_id = "''job-1''"
         and wait = "True"
         and max_wait = "120"
         and start_time = "0"
         and kvs = "[(''output'', JObj [(''error'', JStr ''No prompt provided'')])]"
         and okvs = "[(''error'', JStr ''No prompt provided'')]"
         and v = "JStr ''No prompt provided''"
         and s = "''X''"
         and f = "ConnectionRefused"]
    client_failures_share_one_class
      [where E = "answering (ok_json (JObj [(''output'', JObj [(''format'', JStr ''base64'')])])) 250"
         and w = "world0"
         and c = "client0"
         and prompt = "''sunset''"
         and height = "1024"
         and width = "1024"
         and steps = "9"
         and seed = "None"
         and timeout = "120"
         and r = "\<lparr>status_code = 200, resp_text = [], json_body = Some (JObj [(''output'', JObj [(''format'', JStr ''base64'')])])\<rparr>"
         and job_id = "''job-1''"
         and wait = "True"
         and max_wait = "120"
         and start_time = "0"
         and kvs = "[(''output'', JObj [(''format'', JStr ''base64'')])]"
         and okvs = "[(''format'', JStr ''base64'')]"
         and v = "JNull"
         and s = "''X''"
         and f = "ConnectionRefused"]
    client_failures_share_one_class
      [where E = "answering (ok_json (JObj [(''status'', JStr ''COMPLETED''), (''output'', JObj [(''error'', JStr ''No prompt provided'')])])) 250"
         and w = "world0"
         and c = "client0"
         and prompt = "''sunset''"
         and height = "1024"
         and width = "1024"
         and steps = "9"
         and seed = "None"
         and timeout = "120"
         and r = "\<lparr>status_code = 200, resp_text = [], json_body = Some (JObj [(''status'', JStr ''COMPLETED''), (''output'', JObj [(''error'', JStr ''No prompt provided'')])])\<rparr>"
         and job_id = "''job-1''"
         and wait = "True"
         and max_wait = "120"
         and start_time = "0"
         and kvs = "[(''status'', JStr ''COMPLETED''), (''output'', JObj [(''error'', JStr ''No prompt provided'')])]"
         and okvs = "[(''error'', JStr ''No prompt provided'')]"
         and v = "JStr ''No prompt provided''"
         and s = "''X''"
         and f = "ConnectionRefused"]
    client_failures_share_one_class
      [where E = "answering (ok_json (JObj [(''status'', JStr ''FAILED'')])) 250"
         and w = "world0"
         and c = "client0"
         and prompt = "''sunset''"
         and height = "1024"
         and width = "1024"
         and steps = "9"
         and seed = "None"
         and timeout = "120"
         and r = "\<lparr>status_code = 200, resp_text = [], json_body = Some (JObj [(''status'', JStr ''FAILED'')])\<rparr>"
         and job_id = "''job-1''"
         and wait = "True"
         and max_wait = "120"
         and start_time = "0"
         and kvs = "[(''status'', JStr ''FAILED'')]"
         and okvs = "[]"
         and v = "JNull"
         and s = "''X''"
         and f = "ConnectionRefused"]
    client_failures_share_one_class
      [where E = "answering (ok_json (JObj [(''status'', JStr ''CANCELLED'')])) 250"
         and w = "world0"
         and c = "client0"
         and prompt = "''sunset''"
         and height = "1024"
         and width = "1024"
         and steps = "9"
         and seed = "None"
         and timeout = "120"
         and r = "\<lparr>status_code = 200, resp_text = [], json_body = Some (JObj [])\<rparr>"
         and job_id = "''job-1''"
         and wait = "True"
         and max_wait = "120"
         and start_time = "0"
         and kvs = "[]"
         and okvs = "[]"
         and v = "JNull"
         and s = "''CANCELLED''"
         and f = "ConnectionRefused"]
    client_failures_share_one_class
      [where E = "answering (ok_json (JObj [(''status'', JStr ''IN_PROGRESS'')])) 500"
         and w = "world0"
         and c = "client0"
         and prompt = "''sunset''"
         and height = "1024"
         and width = "1024"
         and steps = "9"
         and seed = "None"
         and timeout = "120"
         and r = "\<lparr>status_code = 200, resp_text = [], json_body = Some (JObj [])\<rparr>"
         and job_id = "''job-1''"
         and wait = "True"
         and max_wait = "0"
         and start_time = "0"
         and kvs = "[]"
         and okvs = "[]"
         and v = "JNull"
         and s = "''IN_PROGRESS''"
         and f = "ConnectionRefused"]
    client_failures_share_one_class
      [where E = "answering (Raised ConnectionRefused) 3"
         and w = "world0"
         and c = "client0"
         and prompt = "''sunset''"
         and height = "1024"
         and width = "1024"
         and steps = "9"
         and seed = "None"
         and timeout = "120"
         and r = "\<lparr>status_code = 200, resp_text = [], json_body = Some (JObj [])\<rparr>"
         and job_id = "''job-1''"
         and wait = "True"
         and max_wait = "120"
         and start_time = "0"
         and kvs = "[]"
         and okvs = "[]"
         and v = "JNull"
         and s = "''X''"
         and f = "ConnectionRefused"]
    client_failures_share_one_class
      [where E = "answering (Raised TimedOut) 5000"
         and w = "world0"
         and c = "client0"
         and prompt = "''sunset''"
         and height = "1024"
         and width = "1024"
         and steps = "9"
         and seed = "None"
         and timeout = "120"
         and r = "\<lparr>status_code = 200, resp_text = [], json_body = Some (JObj [])\<rparr>"
         and job_id = "''job-1''"
         and wait = "True"
         and max_wait = "120"
         and start_time = "0"
         and kvs = "[]"
         and okvs = "[]"
         and v = "JNull"
         and s = "''X''"
         and f = "TimedOut"]
  by (simp add: answering_simps ok_json_def reports_def known_status_def pending_def
        time_time_def after_call_def world0_def)

text \<open>
  C2 as stated fails: a transport failure (HTTP 500) and a failure reported by the service
  in a 200 body reach the caller as exceptions of the same class.
\<close>

theorem transport_and_remote_failure_counterexample:
  "snd (generate_sync (answering (Responded \<lparr>status_code = 500, resp_text = ''Internal Server Error'',
                                               json_body = None\<rparr>) 250)
          client0 ''sunset'' 1024 1024 9 None 120 world0) =
     Inl (PyExc Exception
            [Lit ''API request failed: '', Fmt (JInt 500), Lit '' - '',
             Fmt (JStr ''Internal Server Error'')])
   \<and> snd (generate_sync (answering (ok_json (JObj [(''error'', JStr ''out of memory'')])) 250)
          client0 ''sunset'' 1024 1024 9 None 120 world0) =
     Inl (PyExc Exception [Lit ''Generation failed: '', Fmt (JStr ''out of memory'')])
   \<and> exc_class_of (PyExc Exception
            [Lit ''API request failed: '', Fmt (JInt 500), Lit '' - '',
             Fmt (JStr ''Internal Server Error'')]) =
     exc_class_of (PyExc Exception [Lit ''Generation failed: '', Fmt (JStr ''out of memory'')])"
  by (simp add: generate_sync_answer answering_simps ok_json_def)

text \<open>
  C5. A \<^verbatim>\<open>COMPLETED\<close> status whose output has no \<^verbatim>\<open>image\<close>: \<^verbatim>\<open>get_result\<close> passes
  \<^verbatim>\<open>None\<close> to \<^verbatim>\<open>base64.b64decode\<close>, which raises \<^verbatim>\<open>TypeError\<close>; on the same
  output \<^verbatim>\<open>generate_sync\<close> raises its ``No image in response'' exception.
\<close>

theorem get_result_completed_without_image:
  "get_result (answering (ok_json (JObj [(''status'', JStr ''COMPLETED''),
                                          (''output'', JObj [(''format'', JStr ''base64'')])])) 250)
     client0 ''job-1'' True 120 world0 =
     (\<lparr>clock = 250, calls = 1, naps = 0, log = [HttpCall (status_request client0 ''job-1'') 0]\<rparr>,
      Inl (PyExc TypeError []))
   \<and> snd (generate_sync (answering (ok_json (JObj [(''output'', JObj [(''format'', JStr ''base64'')])])) 250)
          client0 ''sunset'' 1024 1024 9 None 120 world0) =
     Inl (PyExc Exception
            [Lit ''No image in response: '',
             Fmt (JObj [(''output'', JObj [(''format'', JStr ''base64'')])])])"
proof -
  let ?r = "\<lparr>status_code = 200, resp_text = [],
             json_body = Some (JObj [(''status'', JStr ''COMPLETED''),
                                     (''output'', JObj [(''format'', JStr ''base64'')])])\<rparr>"
  have "get_result_loop (answering (ok_json (JObj [(''status'', JStr ''COMPLETED''),
                                          (''output'', JObj [(''format'', JStr ''base64'')])])) 250)
          client0 ''job-1'' True 120 (time_time world0) world0 =
        (after_call (answering (ok_json (JObj [(''status'', JStr ''COMPLETED''),
                                          (''output'', JObj [(''format'', JStr ''base64'')])])) 250)
           (status_request client0 ''job-1'') world0, Inl (PyExc TypeError []))"
    by (rule loop_completed_without_image[where r = ?r and okvs = "[(''format'', JStr ''base64'')]"
              and kvs = "[(''status'', JStr ''COMPLETED''),
                          (''output'', JObj [(''format'', JStr ''base64'')])]"])
       (simp_all add: answering_simps ok_json_def)
  then show ?thesis
    by (simp add: get_result_def after_call_def world0_def answering_simps
          generate_sync_answer ok_json_def)
qed

end
